theory Spec2Isabelle
  imports Main "HOL-Library.AList"
begin

section \<open>JavaScript values\<close>

text \<open>
  The values that flow through \<^verbatim>\<open>src/src/schema.js\<close>. Arrays and plain objects carry a
  tag of type \<open>'r\<close>: it stands for the identity (the reference) of the object. The schema
  operations that never compare or refresh identities are run at \<open>'r = unit\<close>; the
  operation that clones (\<^verbatim>\<open>$default\<close>) is run at \<open>'r = nat\<close>, an address.

  \<^item> \<open>Fun\<close> is a user function (a meta such as \<^verbatim>\<open>getter\<close>, \<^verbatim>\<open>determine\<close>, \<^verbatim>\<open>catch\<close>),
    named by a number; what it does when called is given by the environment.
  \<^item> \<open>Method m\<close> is the method \<open>m\<close> of the class \<^verbatim>\<open>Schema\<close>, read as a value
    (\<^verbatim>\<open>schema['validate']\<close>): a function like any other.
  \<^item> \<open>Ctor\<close> is a class, a native constructor (\<^verbatim>\<open>String\<close>, \<^verbatim>\<open>Number\<close>) or a native function
    (\<^verbatim>\<open>Object.prototype.toString\<close>): callable, but not a function in the sense of
    \<^verbatim>\<open>isFunction\<close> of ts-fns.
  \<^item> \<open>ErrV cls msg\<close> is an instance of \<^verbatim>\<open>Error\<close> (or of its subclass \<open>cls\<close>) with its message.
  \<^item> \<open>Inst cls n\<close> is any other class instance (a \<^verbatim>\<open>Rule\<close>, a \<^verbatim>\<open>Type\<close>, a model). The
    schema passes such a value on or tests its class; an instance has none of the
    properties that the schema reads from a value (\<^verbatim>\<open>determine\<close>, \<^verbatim>\<open>validate\<close>, \<^verbatim>\<open>message\<close>,
    \<^verbatim>\<open>call\<close>) and no enumerable property of its own.
  \<^item> \<open>Proto cls\<close> is the prototype object of the class \<open>cls\<close> (\<^verbatim>\<open>schema['__proto__']\<close>).

  Numbers are \<^verbatim>\<open>NaN\<close> and the integers that a double counts exactly, those below
  \<open>2 ^ 53\<close> in absolute value.
\<close>

datatype 'r val =
    Undefined
  | Null
  | Bool bool
  | Num int
  | NaN
  | Str string
  | Fun nat
  | Method string
  | Ctor string
  | ErrV string string
  | Inst string nat
  | Proto string
  | Arr 'r "'r val list"
  | Obj 'r "(string \<times> 'r val) list"

type_synonym jsval = "unit val"

abbreviation arr :: "jsval list \<Rightarrow> jsval" where
  "arr xs \<equiv> Arr () xs"

abbreviation obj :: "(string \<times> jsval) list \<Rightarrow> jsval" where
  "obj fs \<equiv> Obj () fs"

text \<open>JavaScript truthiness: what \<^verbatim>\<open>if (v)\<close>, \<^verbatim>\<open>!v\<close>, \<^verbatim>\<open>a && b\<close> and \<^verbatim>\<open>a || b\<close> test.\<close>

fun truthy :: "'r val \<Rightarrow> bool" where
  "truthy Undefined = False"
| "truthy Null = False"
| "truthy (Bool b) = b"
| "truthy (Num n) = (n \<noteq> 0)"
| "truthy NaN = False"
| "truthy (Str s) = (s \<noteq> [])"
| "truthy _ = True"

text \<open>
  The predicates that the schema imports from ts-fns, a dependency that is not part of
  the sources: \<^verbatim>\<open>isObject\<close> holds of plain objects only (the constructor of the value is
  \<^verbatim>\<open>Object\<close>), \<^verbatim>\<open>isFunction\<close> of functions that are not classes or native functions.
\<close>

fun isObject :: "'r val \<Rightarrow> bool" where
  "isObject (Obj _ _) = True"
| "isObject _ = False"

fun isArray :: "'r val \<Rightarrow> bool" where
  "isArray (Arr _ _) = True"
| "isArray _ = False"

fun isFunction :: "'r val \<Rightarrow> bool" where
  "isFunction (Fun _) = True"
| "isFunction (Method _) = True"
| "isFunction _ = False"

fun isBoolean :: "'r val \<Rightarrow> bool" where
  "isBoolean (Bool _) = True"
| "isBoolean _ = False"

fun isString :: "'r val \<Rightarrow> bool" where
  "isString (Str _) = True"
| "isString _ = False"

fun isNumber :: "'r val \<Rightarrow> bool" where
  "isNumber (Num _) = True"
| "isNumber _ = False"

fun isUndefined :: "'r val \<Rightarrow> bool" where
  "isUndefined Undefined = True"
| "isUndefined _ = False"

text \<open>\<^verbatim>\<open>isEmpty\<close>: null, undefined, the empty string, NaN, an empty array, an object with no key.\<close>

fun isEmpty :: "'r val \<Rightarrow> bool" where
  "isEmpty Undefined = True"
| "isEmpty Null = True"
| "isEmpty NaN = True"
| "isEmpty (Str s) = (s = [])"
| "isEmpty (Arr _ xs) = (xs = [])"
| "isEmpty (Obj _ fs) = (fs = [])"
| "isEmpty _ = False"

text \<open>\<^verbatim>\<open>isInstanceOf(v, Error)\<close> and \<^verbatim>\<open>isInstanceOf(v, Rule)\<close>.\<close>

fun isError :: "'r val \<Rightarrow> bool" where
  "isError (ErrV _ _) = True"
| "isError _ = False"

fun isRule :: "'r val \<Rightarrow> bool" where
  "isRule (Inst cls _) = (cls = ''Rule'')"
| "isRule _ = False"

text \<open>
  The members that every instance of \<^verbatim>\<open>Schema\<close> inherits: the methods that the class
  declares (\<^verbatim>\<open>defualtMessages\<close> is static, and is not among them), and the members of
  \<^verbatim>\<open>Object.prototype\<close>.
\<close>

definition Schema_prototype :: "string list" where
  "Schema_prototype =
     [''constructor'', ''$has'', ''$default'', ''$message'', ''$determine'', ''required'',
      ''disabled'', ''readonly'', ''get'', ''$set'', ''set'', ''$validate'', ''validate'',
      ''parse'', ''export'', ''_trydo'', ''onError'']"

definition Object_prototype :: "string list" where
  "Object_prototype =
     [''constructor'', ''__defineGetter__'', ''__defineSetter__'', ''hasOwnProperty'',
      ''__lookupGetter__'', ''__lookupSetter__'', ''isPrototypeOf'', ''propertyIsEnumerable'',
      ''toString'', ''valueOf'', ''__proto__'', ''toLocaleString'']"

text \<open>
  Reading a property by one of the names that the schema spells out: the metas of a
  definition (\<^verbatim>\<open>default\<close>, \<^verbatim>\<open>getter\<close>, \<^verbatim>\<open>setter\<close>, \<^verbatim>\<open>compute\<close>, \<^verbatim>\<open>catch\<close>, \<^verbatim>\<open>type\<close>,
  \<^verbatim>\<open>message\<close>, \<^verbatim>\<open>validators\<close>, \<^verbatim>\<open>create\<close>, \<^verbatim>\<open>drop\<close>, \<^verbatim>\<open>map\<close>, \<^verbatim>\<open>flat\<close>, \<^verbatim>\<open>required\<close>,
  \<^verbatim>\<open>readonly\<close>, \<^verbatim>\<open>disabled\<close>) and \<^verbatim>\<open>determine\<close>, \<^verbatim>\<open>validate\<close>, \<^verbatim>\<open>message\<close> of a node or of a
  validator. The value read from is not null or undefined. None of these names is a
  member of \<^verbatim>\<open>Object.prototype\<close>, of \<^verbatim>\<open>Function.prototype\<close>, of \<^verbatim>\<open>Array.prototype\<close> or of
  \<^verbatim>\<open>String.prototype\<close>, so that only own properties count: an absent key reads as
  \<^verbatim>\<open>undefined\<close>. An \<^verbatim>\<open>Error\<close> has its \<^verbatim>\<open>message\<close>, and the prototype object of \<^verbatim>\<open>Schema\<close> has the
  methods of the class. Functions, arrays and strings are taken to have no property of
  these names.
\<close>

fun prop_of :: "'r val \<Rightarrow> string \<Rightarrow> 'r val" where
  "prop_of (Obj _ fs) k = (case map_of fs k of Some v \<Rightarrow> v | None \<Rightarrow> Undefined)"
| "prop_of (ErrV _ m) k = (if k = ''message'' then Str m else Undefined)"
| "prop_of (Proto cls) k =
     (if cls = ''Schema'' \<and> k \<in> set Schema_prototype \<and> k \<noteq> ''constructor'' then Method k
      else Undefined)"
| "prop_of _ k = Undefined"

text \<open>
  \<^verbatim>\<open>data[key]\<close> on a plain object, for any key: an own property, or else a member of
  \<^verbatim>\<open>Object.prototype\<close> (\<^verbatim>\<open>data['toString']\<close> is a native function, \<^verbatim>\<open>data['constructor']\<close> is
  \<^verbatim>\<open>Object\<close>, and \<^verbatim>\<open>data['__proto__']\<close> is \<^verbatim>\<open>Object.prototype\<close> itself, a plain object with
  no enumerable key), or else \<^verbatim>\<open>undefined\<close>.
\<close>

definition Object_member :: "string \<Rightarrow> jsval" where
  "Object_member k =
     (if k = ''constructor'' then Ctor ''Object''
      else if k = ''__proto__'' then obj []
      else Ctor (''Object.prototype.'' @ k))"

definition data_at :: "(string \<times> jsval) list \<Rightarrow> string \<Rightarrow> jsval" where
  "data_at data key =
     (case map_of data key of
        Some v \<Rightarrow> v
      | None \<Rightarrow> if key \<in> set Object_prototype then Object_member key else Undefined)"

text \<open>
  \<^verbatim>\<open>inObject(k, v)\<close> of ts-fns, for the names \<^verbatim>\<open>required\<close>, \<^verbatim>\<open>readonly\<close> and \<^verbatim>\<open>disabled\<close> that
  the schema passes: \<open>v\<close> is an object (\<^verbatim>\<open>typeof v === 'object'\<close>, which a function is not)
  and \<open>k\<close> is one of its keys, whatever the value under it. A plain object has these
  names as own keys only. The keys are taken to be the enumerable ones, which the methods
  of a class are not.
\<close>

fun inObject :: "string \<Rightarrow> 'r val \<Rightarrow> bool" where
  "inObject k (Obj _ fs) = (k \<in> fst ` set fs)"
| "inObject k _ = False"

text \<open>The decimal numeral of an array index, as \<^verbatim>\<open>'validators[' + index + ']'\<close> builds it.\<close>

fun show_nat :: "nat \<Rightarrow> string" where
  "show_nat n =
     (if n < 10 then [''0123456789'' ! n]
      else show_nat (n div 10) @ [''0123456789'' ! (n mod 10)])"

declare show_nat.simps [simp del]

text \<open>
  The own enumerable entries of a value, which \<^verbatim>\<open>Object.assign(target, v)\<close> copies: the
  fields of an object, the items of an array under their indices, the characters of a
  string under theirs, and nothing for any other value.
\<close>

fun entries :: "'r val \<Rightarrow> (string \<times> 'r val) list" where
  "entries (Obj _ fs) = fs"
| "entries (Arr _ xs) = zip (map show_nat [0..<length xs]) xs"
| "entries (Str s) = zip (map show_nat [0..<length s]) (map (\<lambda>c. Str [c]) s)"
| "entries _ = []"

text \<open>
  The assignment \<^verbatim>\<open>target[k] = v\<close> on the own fields of an object that was created empty
  and has only been assigned to: a key of the target takes the new value, a new key is
  added. Assigning to \<^verbatim>\<open>__proto__\<close> runs the setter of \<^verbatim>\<open>Object.prototype\<close>, which adds no
  own property. The list keeps the order of insertion; the theorems read objects by
  key, and the order in which JavaScript enumerates integer-like keys plays no part.
\<close>

definition put :: "string \<Rightarrow> 'r val \<Rightarrow> (string \<times> 'r val) list \<Rightarrow> (string \<times> 'r val) list" where
  "put k v fs = (if k = ''__proto__'' then fs else AList.update k v fs)"

text \<open>\<^verbatim>\<open>Object.assign(target, source)\<close>: every entry of the source is assigned, in order.\<close>

fun assign :: "(string \<times> 'r val) list \<Rightarrow> (string \<times> 'r val) list \<Rightarrow> (string \<times> 'r val) list" where
  "assign target [] = target"
| "assign target ((k, v) # rest) = assign (put k v target) rest"

section \<open>Calls, exceptions and the error log\<close>

text \<open>
  A call either throws (\<open>Inl\<close> the thrown value) or returns (\<open>Inr\<close>). The environment says
  what every callable does on a receiver (\<^verbatim>\<open>this\<close>) and its arguments, and what
  \<^verbatim>\<open>Ty.catch(value).by(type)\<close> answers: an error object, or null.
  User functions are taken to be pure: apart from throwing, their effect on the world is
  not modelled.
\<close>

record 'r env =
  call :: "'r val \<Rightarrow> 'r val \<Rightarrow> 'r val list \<Rightarrow> 'r val + 'r val"
  ty_catch :: "'r val \<Rightarrow> 'r val \<Rightarrow> 'r val"

text \<open>
  \<^verbatim>\<open>f.call(this, ...args)\<close>. On a function it is \<^verbatim>\<open>Function.prototype.call\<close>, which calls
  \<open>f\<close>. A plain object may have a function under the key \<^verbatim>\<open>call\<close>, which is then called on
  the object with \<^verbatim>\<open>this\<close> as its first argument. On any other value there is no \<^verbatim>\<open>call\<close> to
  call, which is a TypeError.
\<close>

fun isCallable :: "'r val \<Rightarrow> bool" where
  "isCallable (Fun _) = True"
| "isCallable (Method _) = True"
| "isCallable (Ctor _) = True"
| "isCallable _ = False"

fun callf :: "'r env \<Rightarrow> 'r val \<Rightarrow> 'r val \<Rightarrow> 'r val list \<Rightarrow> 'r val + 'r val" where
  "callf E (Fun n) this args = call E (Fun n) this args"
| "callf E (Method m) this args = call E (Method m) this args"
| "callf E (Ctor c) this args = call E (Ctor c) this args"
| "callf E (Obj r fs) this args =
     (case map_of fs ''call'' of
        Some f \<Rightarrow> if isCallable f then call E f (Obj r fs) (this # args)
                  else Inl (ErrV ''TypeError'' ''not a function'')
      | None \<Rightarrow> Inl (ErrV ''TypeError'' ''not a function''))"
| "callf E _ this args = Inl (ErrV ''TypeError'' ''not a function'')"

text \<open>
  An action runs on the log of the objects passed to \<^verbatim>\<open>onError\<close> so far, and throws or
  returns, leaving the new log.
\<close>

type_synonym 'a act = "jsval list \<Rightarrow> (jsval + 'a) \<times> jsval list"

definition ret :: "'a \<Rightarrow> 'a act" where
  "ret x = (\<lambda>log. (Inr x, log))"

definition throw :: "jsval \<Rightarrow> 'a act" where
  "throw e = (\<lambda>log. (Inl e, log))"

definition lift :: "jsval + 'a \<Rightarrow> 'a act" where
  "lift r = (\<lambda>log. (r, log))"

definition then_do :: "'a act \<Rightarrow> ('a \<Rightarrow> 'b act) \<Rightarrow> 'b act" where
  "then_do m f = (\<lambda>log. case m log of (Inl e, log') \<Rightarrow> (Inl e, log') | (Inr x, log') \<Rightarrow> f x log')"

section \<open>The schema\<close>

text \<open>
  A schema instance holds one definition per field, as own enumerable properties, in the
  order in which the instance enumerates them, and inherits the \<^verbatim>\<open>onError\<close> hook. The class
  declares \<^verbatim>\<open>onError() {}\<close>; a subclass may override it, so the hook is a field of the
  record (the subclass is taken to declare no other member). The constructor keeps only
  the definitions that are plain objects.
\<close>

record 'r schema_rec =
  defs :: "(string \<times> 'r val) list"
  onError :: "'r val \<Rightarrow> 'r val + 'r val"

type_synonym schema = "unit schema_rec"

definition Schema_onError :: "jsval \<Rightarrow> jsval + jsval" where
  "Schema_onError e = Inr Undefined"

definition Schema_new :: "(string \<times> jsval) list \<Rightarrow> schema" where
  "Schema_new ds = \<lparr> defs = filter (\<lambda>(key, d). isObject d) ds, onError = Schema_onError \<rparr>"

text \<open>
  \<^verbatim>\<open>this[key]\<close>: the definition, when the instance has an own property of that name;
  otherwise what the prototype chain gives, a method of the class or a member of
  \<^verbatim>\<open>Object.prototype\<close>; otherwise \<^verbatim>\<open>undefined\<close>.
\<close>

definition field :: "'r schema_rec \<Rightarrow> string \<Rightarrow> 'r val" where
  "field S key =
     (case map_of (defs S) key of
        Some d \<Rightarrow> d
      | None \<Rightarrow>
          if key = ''constructor'' then Ctor ''Schema''
          else if key \<in> set Schema_prototype then Method key
          else if key = ''__proto__'' then Proto ''Schema''
          else if key \<in> set Object_prototype then Ctor (''Object.prototype.'' @ key)
          else Undefined)"

text \<open>
  A call \<^verbatim>\<open>this.name(...)\<close> of a method of the class. The constructor defines every field
  as an own property of the instance, so a field called \<open>name\<close> hides the method: the call
  then finds the definition, a plain object, and is a TypeError. The arguments of the
  calls in \<^verbatim>\<open>schema.js\<close> are values and closures, so nothing runs before the error.
\<close>

definition invoke :: "schema \<Rightarrow> string \<Rightarrow> 'a act \<Rightarrow> 'a act" where
  "invoke S name body =
     (if name \<in> fst ` set (defs S)
      then throw (ErrV ''TypeError'' (''this.'' @ name @ '' is not a function''))
      else body)"

text \<open>No field of the schema has the name of a method of the class.\<close>

definition unshadowed :: "schema \<Rightarrow> bool" where
  "unshadowed S \<longleftrightarrow> (\<forall>name \<in> set Schema_prototype. name \<notin> fst ` set (defs S))"

text \<open>\<^verbatim>\<open>this.onError(e)\<close>: the call of the hook is logged, whatever the hook does.\<close>

definition report :: "schema \<Rightarrow> jsval \<Rightarrow> jsval act" where
  "report S e = invoke S ''onError'' (\<lambda>log. (onError S e, log @ [e]))"

text \<open>
  \<^verbatim>\<open>_trydo(fn, fallback, basic, force)\<close>. \<open>fn\<close> is the outcome of the thunk, which is a
  call of a pure user function.
\<close>

definition Schema_trydo ::
  "schema \<Rightarrow> jsval + jsval \<Rightarrow> (jsval \<Rightarrow> jsval + jsval) \<Rightarrow> (string \<times> jsval) list \<Rightarrow> jsval \<Rightarrow> jsval act"
where
  "Schema_trydo S fn fallback basic force =
     (if truthy force then lift fn
      else (case fn of
              Inr v \<Rightarrow> ret v
            | Inl error \<Rightarrow>
                (let err = obj (AList.update ''error'' error basic)
                 in then_do (report S err)
                      (\<lambda>r. lift (fallback (if truthy r then r else err))))))"

text \<open>
  The fallback that every call site passes:
  \<^verbatim>\<open>(error) => isFunction(handle) && handle.call(context, error) || dflt\<close>.
\<close>

definition fallback :: "unit env \<Rightarrow> jsval \<Rightarrow> jsval \<Rightarrow> jsval \<Rightarrow> jsval \<Rightarrow> jsval + jsval" where
  "fallback E handle context dflt error =
     (if isFunction handle
      then (case callf E handle context [error] of
              Inl x \<Rightarrow> Inl x
            | Inr r \<Rightarrow> Inr (if truthy r then r else dflt))
      else Inr dflt)"

text \<open>
  The meta names that the schema passes to \<^verbatim>\<open>$message\<close> and \<^verbatim>\<open>$determine\<close>: its methods
  call them with these five names and with no other.
\<close>

datatype meta = type_meta | compute_meta | required_meta | readonly_meta | disabled_meta

fun meta_name :: "meta \<Rightarrow> string" where
  "meta_name type_meta = ''type''"
| "meta_name compute_meta = ''compute''"
| "meta_name required_meta = ''required''"
| "meta_name readonly_meta = ''readonly''"
| "meta_name disabled_meta = ''disabled''"

text \<open>
  \<^verbatim>\<open>interpolate(Schema.defualtMessages[meta] || `{key} ${meta} error.`, { key })\<close>: each of
  the five names has its template in \<^verbatim>\<open>Schema.defualtMessages\<close>.
\<close>

fun defualtMessage :: "string \<Rightarrow> meta \<Rightarrow> string" where
  "defualtMessage key type_meta = key @ '' does not match type.''"
| "defualtMessage key compute_meta =
     key @ '' can not be set new value because it is a computed property.''"
| "defualtMessage key required_meta = key @ '' is required, but receive empty.''"
| "defualtMessage key readonly_meta = key @ '' can not be set new value because of readonly.''"
| "defualtMessage key disabled_meta = key @ '' can not be set new value because of disabled.''"

text \<open>\<^verbatim>\<open>$message(key, meta, context)(givenMessage)\<close>\<close>

definition Schema_dollar_message ::
  "schema \<Rightarrow> unit env \<Rightarrow> string \<Rightarrow> meta \<Rightarrow> jsval \<Rightarrow> jsval \<Rightarrow> jsval act"
where
  "Schema_dollar_message S E key meta context givenMessage =
     (let def = field S key in
      if \<not> truthy def then ret (Str [])
      else
        let node = prop_of def (meta_name meta) in
        if \<not> truthy node then ret (Str [])
        else
          let defualt = Str (defualtMessage key meta);
              handle = prop_of def ''catch''
          in
          if isString givenMessage then ret givenMessage
          else if isBoolean node then ret defualt
          else if isString node then ret node
          else if isFunction node then ret defualt
          else if isObject node \<and> truthy (prop_of node ''message'') then
            (let message = prop_of node ''message'' in
             if isFunction message then
               invoke S ''_trydo''
                 (Schema_trydo S (callf E message context [Str (meta_name meta)])
                    (fallback E handle context defualt)
                    [(''key'', Str key), (''meta'', Str ''message'')] Undefined)
             else if isString message then ret message
             else ret defualt)
          else ret defualt)"

text \<open>\<^verbatim>\<open>$determine(key, meta, context)(fallbackRes)\<close>\<close>

definition Schema_dollar_determine ::
  "schema \<Rightarrow> unit env \<Rightarrow> string \<Rightarrow> meta \<Rightarrow> jsval \<Rightarrow> jsval \<Rightarrow> jsval act"
where
  "Schema_dollar_determine S E key meta context fallbackRes =
     (let def = field S key in
      if \<not> truthy def then ret fallbackRes
      else if \<not> inObject (meta_name meta) def then ret fallbackRes
      else
        let node = prop_of def (meta_name meta);
            handle = prop_of def ''catch''
        in
        if isObject node then
          (let determine = prop_of node ''determine'' in
           if isFunction determine then
             invoke S ''_trydo''
               (Schema_trydo S (callf E determine context [])
                  (fallback E handle context fallbackRes)
                  [(''key'', Str key), (''meta'', Str (meta_name meta))] Undefined)
           else ret determine)
        else if isFunction node then
          invoke S ''_trydo''
            (Schema_trydo S (callf E node context [])
               (fallback E handle context fallbackRes)
               [(''key'', Str key), (''meta'', Str (meta_name meta))] Undefined)
        else ret node)"

definition Schema_required :: "schema \<Rightarrow> unit env \<Rightarrow> string \<Rightarrow> jsval \<Rightarrow> jsval act" where
  "Schema_required S E key context =
     invoke S ''$determine'' (Schema_dollar_determine S E key required_meta context (Bool False))"

definition Schema_disabled :: "schema \<Rightarrow> unit env \<Rightarrow> string \<Rightarrow> jsval \<Rightarrow> jsval act" where
  "Schema_disabled S E key context =
     invoke S ''$determine'' (Schema_dollar_determine S E key disabled_meta context (Bool False))"

definition Schema_readonly :: "schema \<Rightarrow> unit env \<Rightarrow> string \<Rightarrow> jsval \<Rightarrow> jsval act" where
  "Schema_readonly S E key context =
     invoke S ''$determine'' (Schema_dollar_determine S E key readonly_meta context (Bool False))"

section \<open>Reading and writing a field\<close>

text \<open>
  The type check that \<^verbatim>\<open>$set\<close>, \<^verbatim>\<open>validate\<close> and \<^verbatim>\<open>parse\<close> share: a \<^verbatim>\<open>Rule\<close> is checked
  on a one-key object that holds the value unless it is undefined, any other type on the
  bare value. The answer is an error object or null.
\<close>

definition type_error :: "unit env \<Rightarrow> string \<Rightarrow> jsval \<Rightarrow> jsval \<Rightarrow> jsval" where
  "type_error E key type value =
     (let target = obj (if isUndefined value then [] else put key value [])
      in if isRule type then ty_catch E target (obj [(key, type)])
         else ty_catch E value type)"


text \<open>
  The type check of \<^verbatim>\<open>$set\<close> (lines 331 to 349) and of \<^verbatim>\<open>parse\<close> (lines 623 to 640), which
  report a mismatch to \<^verbatim>\<open>onError\<close> under the name of the action. The message is evaluated
  before the hook is called.
\<close>

definition report_type ::
  "schema \<Rightarrow> unit env \<Rightarrow> string \<Rightarrow> string \<Rightarrow> jsval \<Rightarrow> jsval \<Rightarrow> jsval \<Rightarrow> unit act"
where
  "report_type S E action key def value context =
     (let type = prop_of def ''type'';
          message = prop_of def ''message''
      in
      if truthy type then
        (let error = type_error E key type value in
         if truthy error then
           then_do (invoke S ''$message''
                      (Schema_dollar_message S E key type_meta context message)) (\<lambda>m.
           then_do (report S (obj [(''key'', Str key), (''action'', Str action),
                                   (''value'', value), (''type'', Bool True),
                                   (''error'', error), (''message'', m)])) (\<lambda>_.
           ret ()))
         else ret ())
      else ret ())"

text \<open>\<^verbatim>\<open>$set(key, value, context)\<close>\<close>

definition Schema_dollar_set :: "schema \<Rightarrow> unit env \<Rightarrow> string \<Rightarrow> jsval \<Rightarrow> jsval \<Rightarrow> jsval act" where
  "Schema_dollar_set S E key value context =
     (let def = field S key in
      if \<not> truthy def then ret value
      else
        let setter = prop_of def ''setter'';
            compute = prop_of def ''compute'';
            handle = prop_of def ''catch''
        in
        if truthy compute then
          then_do (invoke S ''$message''
                     (Schema_dollar_message S E key compute_meta context Undefined)) (\<lambda>m.
          then_do (report S (obj [(''key'', Str key), (''action'', Str ''$set''), (''value'', value),
                                  (''compute'', Bool True), (''message'', m)])) (\<lambda>_.
          lift (callf E compute context [])))
        else
          then_do (if isFunction setter
                   then invoke S ''_trydo''
                          (Schema_trydo S (callf E setter context [value])
                             (fallback E handle context value)
                             [(''key'', Str key), (''meta'', Str ''setter'')] Undefined)
                   else ret value) (\<lambda>value.
          then_do (report_type S E ''$set'' key def value context) (\<lambda>_.
          ret value)))"

text \<open>\<^verbatim>\<open>set(key, next, prev, context)\<close>\<close>

definition Schema_set ::
  "schema \<Rightarrow> unit env \<Rightarrow> string \<Rightarrow> jsval \<Rightarrow> jsval \<Rightarrow> jsval \<Rightarrow> jsval act"
where
  "Schema_set S E key next prev context =
     (let def = field S key in
      if \<not> truthy def then ret next
      else
        then_do (invoke S ''disabled'' (Schema_disabled S E key context)) (\<lambda>disabled.
        if truthy disabled then
          then_do (invoke S ''$message''
                     (Schema_dollar_message S E key disabled_meta context disabled)) (\<lambda>m.
          then_do (report S (obj [(''key'', Str key), (''action'', Str ''set''), (''next'', next),
                                  (''prev'', prev), (''disabled'', Bool True), (''message'', m)])) (\<lambda>_.
          ret prev))
        else
          then_do (invoke S ''readonly'' (Schema_readonly S E key context)) (\<lambda>readonly.
          if truthy readonly then
            then_do (invoke S ''$message''
                       (Schema_dollar_message S E key readonly_meta context readonly)) (\<lambda>m.
            then_do (report S (obj [(''key'', Str key), (''action'', Str ''set''), (''next'', next),
                                    (''prev'', prev), (''readonly'', Bool True), (''message'', m)])) (\<lambda>_.
            ret prev))
          else invoke S ''$set'' (Schema_dollar_set S E key next context))))"

section \<open>Validation\<close>

text \<open>
  \<^verbatim>\<open>validators[i]\<close> and \<^verbatim>\<open>validators.length\<close> on whatever the \<^verbatim>\<open>validators\<close> meta holds:
  reading from null throws; an array and a string have items and a length; nothing else
  has them (an object that imitates an array is not modelled).
\<close>

definition item_at :: "jsval list \<Rightarrow> int \<Rightarrow> jsval" where
  "item_at xs i = (if 0 \<le> i \<and> i < int (length xs) then xs ! nat i else Undefined)"

fun items_of :: "jsval \<Rightarrow> jsval list" where
  "items_of (Arr _ xs) = xs"
| "items_of (Str s) = map (\<lambda>c. Str [c]) s"
| "items_of _ = []"

fun index_val :: "jsval \<Rightarrow> int \<Rightarrow> jsval + jsval" where
  "index_val Undefined i = Inl (ErrV ''TypeError'' ''cannot read properties of undefined'')"
| "index_val Null i = Inl (ErrV ''TypeError'' ''cannot read properties of null'')"
| "index_val v i = Inr (item_at (items_of v) i)"

fun length_val :: "jsval \<Rightarrow> jsval + int option" where
  "length_val Undefined = Inl (ErrV ''TypeError'' ''cannot read properties of undefined'')"
| "length_val Null = Inl (ErrV ''TypeError'' ''cannot read properties of null'')"
| "length_val (Arr _ xs) = Inr (Some (int (length xs)))"
| "length_val (Str s) = Inr (Some (int (length s)))"
| "length_val _ = Inr None"

text \<open>\<^verbatim>\<open>'validators[' + index + ']'\<close>, for the index of a validator that exists: it is not
  negative.\<close>

definition validator_name :: "int \<Rightarrow> string" where
  "validator_name index = ''validators['' @ show_nat (nat index) @ '']''"

text \<open>
  The local function \<^verbatim>\<open>validate(validator, index, dontTry)\<close> of \<^verbatim>\<open>$validate\<close>, in its three
  parts; it returns an error object, or nothing. First what it does with the answer
  \<open>res\<close> of the validator (lines 440 to 477). Where the validator has answered an array
  it evaluates \<^verbatim>\<open>errors.push(...res)\<close>, and no variable \<^verbatim>\<open>errors\<close> is in scope there
  (\<^verbatim>\<open>errors\<close> is a parameter of \<^verbatim>\<open>runOne\<close> and a local of \<^verbatim>\<open>validateByRange\<close>, not of the
  enclosing method or module): in a module this is a ReferenceError, thrown outside every
  \<^verbatim>\<open>_trydo\<close>.
\<close>

definition validator_answer ::
  "schema \<Rightarrow> unit env \<Rightarrow> string \<Rightarrow> jsval \<Rightarrow> jsval \<Rightarrow> jsval \<Rightarrow> jsval \<Rightarrow> int \<Rightarrow> jsval \<Rightarrow> jsval
     \<Rightarrow> jsval option act"
where
  "validator_answer S E key value context handle validator index dontTry res =
     (let message = prop_of validator ''message'';
          at = validator_name index
      in
      if isBoolean res \<and> truthy res then ret None
      else if isArray res then throw (ErrV ''ReferenceError'' ''errors is not defined'')
      else
        let msg = (if isError res then prop_of res ''message'' else Str []) in
        then_do (if isFunction message
                 then invoke S ''_trydo''
                        (Schema_trydo S (callf E message context [value, Str key, res])
                           (fallback E handle context
                              (if truthy msg then msg
                               else Str (key @ '' did not pass '' @ at)))
                           [(''key'', Str key), (''meta'', Str (at @ ''.message''))] dontTry)
                 else ret msg) (\<lambda>msg.
        let msg = (if \<not> truthy msg \<and> isString message then message else msg) in
        ret (Some (obj [(''key'', Str key), (''value'', value), (''at'', Num index),
                        (''message'', msg)]))))"

text \<open>Then the call of the \<^verbatim>\<open>validate\<close> function of the validator (lines 431 to 439).\<close>

definition validator_check ::
  "schema \<Rightarrow> unit env \<Rightarrow> string \<Rightarrow> jsval \<Rightarrow> jsval \<Rightarrow> jsval \<Rightarrow> jsval \<Rightarrow> int \<Rightarrow> jsval
     \<Rightarrow> jsval option act"
where
  "validator_check S E key value context handle validator index dontTry =
     (let validate = prop_of validator ''validate'';
          at = validator_name index
      in
      then_do (invoke S ''_trydo''
                 (Schema_trydo S (callf E validate context [value, Str key])
                    (fallback E handle context (Bool True))
                    [(''key'', Str key), (''meta'', Str (at @ ''.validate''))] dontTry))
        (validator_answer S E key value context handle validator index dontTry))"

text \<open>And the whole of it, which starts with \<^verbatim>\<open>determine\<close> (lines 410 to 429).\<close>

definition validator_validate ::
  "schema \<Rightarrow> unit env \<Rightarrow> string \<Rightarrow> jsval \<Rightarrow> jsval \<Rightarrow> jsval \<Rightarrow> jsval \<Rightarrow> int \<Rightarrow> jsval
     \<Rightarrow> jsval option act"
where
  "validator_validate S E key value context handle validator index dontTry =
     (let determine = prop_of validator ''determine'';
          at = validator_name index
      in
      if isBoolean determine \<and> \<not> truthy determine then ret None
      else if isFunction determine then
        then_do (invoke S ''_trydo''
                   (Schema_trydo S (callf E determine context [value, Str key])
                      (fallback E handle context (Bool False))
                      [(''key'', Str key), (''meta'', Str (at @ ''.determine''))] dontTry))
          (\<lambda>bool. if \<not> truthy bool then ret None
                   else validator_check S E key value context handle validator index dontTry)
      else validator_check S E key value context handle validator index dontTry)"

text \<open>\<^verbatim>\<open>runOne(dontTry, validators, i, errors)\<close>, returning what it pushes.\<close>

definition runOne ::
  "schema \<Rightarrow> unit env \<Rightarrow> string \<Rightarrow> jsval \<Rightarrow> jsval \<Rightarrow> jsval \<Rightarrow> jsval \<Rightarrow> jsval \<Rightarrow> int
     \<Rightarrow> jsval list act"
where
  "runOne S E key value context handle dontTry validators i =
     then_do (lift (index_val validators i)) (\<lambda>validator.
     if \<not> truthy validator then ret []
     else
       then_do (validator_validate S E key value context handle validator i dontTry) (\<lambda>error.
       ret (case error of None \<Rightarrow> [] | Some e \<Rightarrow> [e])))"

text \<open>The two loops: every index in turn, the errors in the order they are pushed.\<close>

fun run_each :: "(int \<Rightarrow> jsval list act) \<Rightarrow> int list \<Rightarrow> jsval list act" where
  "run_each f [] = ret []"
| "run_each f (i # rest) =
     then_do (f i) (\<lambda>errors. then_do (run_each f rest) (\<lambda>more. ret (errors @ more)))"

text \<open>
  \<^verbatim>\<open>validateByRange(dontTry, validators, [start = 0, end = validators.length - 1])\<close>. Where
  \<^verbatim>\<open>validators\<close> has no length the end is \<^verbatim>\<open>NaN\<close> and the loop does not run.
\<close>

definition validateByRange ::
  "schema \<Rightarrow> unit env \<Rightarrow> string \<Rightarrow> jsval \<Rightarrow> jsval \<Rightarrow> jsval \<Rightarrow> jsval \<Rightarrow> jsval
     \<Rightarrow> int option \<Rightarrow> int option \<Rightarrow> jsval list act"
where
  "validateByRange S E key value context handle dontTry validators start end =
     (let start = (case start of None \<Rightarrow> 0 | Some s \<Rightarrow> s) in
      then_do (case end of
                 Some e \<Rightarrow> ret (Some e)
               | None \<Rightarrow> then_do (lift (length_val validators)) (\<lambda>n. ret (map_option (\<lambda>n. n - 1) n)))
        (\<lambda>end. case end of
                 None \<Rightarrow> ret []
               | Some e \<Rightarrow> run_each (runOne S E key value context handle dontTry validators) [start..e]))"

definition validateByIndexes ::
  "schema \<Rightarrow> unit env \<Rightarrow> string \<Rightarrow> jsval \<Rightarrow> jsval \<Rightarrow> jsval \<Rightarrow> jsval \<Rightarrow> jsval
     \<Rightarrow> int list \<Rightarrow> jsval list act"
where
  "validateByIndexes S E key value context handle dontTry validators indexes =
     run_each (runOne S E key value context handle dontTry validators) indexes"

text \<open>
  The arguments of the selector that \<^verbatim>\<open>$validate\<close> returns, in the forms its code tells
  apart:
  \<^item> \<open>Custom vs\<close>: an array whose first item is a truthy object, a list of validators;
  \<^item> \<open>Bounds start end\<close>: any other array, \<^verbatim>\<open>[start, end]\<close> with numbers or nothing at the
    two places (\<^verbatim>\<open>[]\<close> is \<open>Bounds None None\<close>, which is what \<^verbatim>\<open>validate\<close> passes);
  \<^item> \<open>Indexes is\<close>: numbers;
  \<^item> \<open>Nothing\<close>: anything else.
\<close>

datatype selection = Custom "jsval list" | Bounds "int option" "int option" | Indexes "int list" | Nothing

text \<open>\<^verbatim>\<open>$validate(key, value, context)(...args)\<close>, returning the items of the array.\<close>

definition Schema_dollar_validate ::
  "schema \<Rightarrow> unit env \<Rightarrow> string \<Rightarrow> jsval \<Rightarrow> jsval \<Rightarrow> selection \<Rightarrow> jsval list act"
where
  "Schema_dollar_validate S E key value context args =
     (let def = field S key in
      if isUndefined def \<or> def = Null then throw (ErrV ''TypeError'' ''cannot destructure'')
      else
        let handle = prop_of def ''catch'';
            validators = (if isUndefined (prop_of def ''validators'') then arr []
                          else prop_of def ''validators'')
        in
        then_do (invoke S ''disabled'' (Schema_disabled S E key context)) (\<lambda>disabled.
        if truthy disabled then ret []
        else
          (case args of
             Custom first \<Rightarrow>
               validateByRange S E key value context handle (Num 1) (arr first) None None
           | Bounds start end \<Rightarrow>
               validateByRange S E key value context handle (Num 0) validators start end
           | Indexes indexes \<Rightarrow>
               validateByIndexes S E key value context handle (Num 0) validators indexes
           | Nothing \<Rightarrow> ret [])))"

text \<open>
  The type check of \<^verbatim>\<open>validate(key, value, context)\<close>, returning the errors it pushes: none,
  or the one type error.
\<close>

definition validate_type ::
  "schema \<Rightarrow> unit env \<Rightarrow> string \<Rightarrow> jsval \<Rightarrow> jsval \<Rightarrow> jsval \<Rightarrow> jsval list act"
where
  "validate_type S E key def value context =
     (let type = prop_of def ''type'';
          message = prop_of def ''message''
      in
      if truthy type then
        (let error = type_error E key type value in
         if truthy error then
           then_do (invoke S ''$message''
                      (Schema_dollar_message S E key type_meta context message)) (\<lambda>m.
           ret [obj [(''key'', Str key), (''value'', value), (''type'', Bool True),
                     (''error'', error), (''message'', m)]])
         else ret [])
      else ret [])"

text \<open>\<^verbatim>\<open>validate(key, value, context)\<close>\<close>

definition Schema_validate :: "schema \<Rightarrow> unit env \<Rightarrow> string \<Rightarrow> jsval \<Rightarrow> jsval \<Rightarrow> jsval act" where
  "Schema_validate S E key value context =
     (let def = field S key in
      if \<not> truthy def then
        ret (arr [obj [(''key'', Str key), (''value'', value),
                       (''message'', Str (key @ '' is not existing in schema.''))]])
      else
        then_do (invoke S ''disabled'' (Schema_disabled S E key context)) (\<lambda>disabled.
        if truthy disabled then ret (arr [])
        else
          then_do (invoke S ''required'' (Schema_required S E key context)) (\<lambda>required.
          if truthy required \<and> isEmpty value then
            then_do (invoke S ''$message''
                       (Schema_dollar_message S E key required_meta context required)) (\<lambda>m.
            ret (arr [obj [(''key'', Str key), (''value'', value), (''required'', Bool True),
                           (''message'', m)]]))
          else
            then_do (validate_type S E key def value context) (\<lambda>errors.
            then_do (invoke S ''$validate''
                       (Schema_dollar_validate S E key value context (Bounds None None))) (\<lambda>errs.
            ret (arr (errors @ errs)))))))"

section \<open>Export and parse\<close>

text \<open>
  \<^verbatim>\<open>each(this, fn)\<close>: the fields in the order in which the instance enumerates them,
  threading what \<open>fn\<close> mutates.
\<close>

fun each_field :: "(string \<Rightarrow> jsval \<Rightarrow> 'a \<Rightarrow> 'a act) \<Rightarrow> (string \<times> jsval) list \<Rightarrow> 'a \<Rightarrow> 'a act" where
  "each_field f [] acc = ret acc"
| "each_field f ((key, def) # rest) acc = then_do (f key def acc) (each_field f rest)"

text \<open>
  The data that \<^verbatim>\<open>export\<close> and \<^verbatim>\<open>parse\<close> read is a plain object, given by its own fields.

  The body of the loop of \<^verbatim>\<open>export(data, context)\<close> for one field, in its three parts.
  First the \<^verbatim>\<open>flat\<close> part: the entries of what \<^verbatim>\<open>flat\<close> answers go into \<^verbatim>\<open>patch\<close>.
\<close>

definition export_flat ::
  "schema \<Rightarrow> unit env \<Rightarrow> (string \<times> jsval) list \<Rightarrow> jsval \<Rightarrow> string \<Rightarrow> jsval \<Rightarrow> jsval
     \<Rightarrow> (string \<times> jsval) list \<Rightarrow> (string \<times> jsval) list act"
where
  "export_flat S E data context key def value patch =
     (let flat = prop_of def ''flat'';
          handle = prop_of def ''catch''
      in
      if isFunction flat then
        then_do (invoke S ''_trydo''
                   (Schema_trydo S
                      (case callf E flat context [value, Str key, obj data] of
                         Inl e \<Rightarrow> Inl e
                       | Inr r \<Rightarrow> Inr (if truthy r then r else obj []))
                      (fallback E handle context (obj []))
                      [(''key'', Str key), (''meta'', Str ''flat'')] Undefined)) (\<lambda>res.
        ret (assign patch (entries res)))
      else ret patch)"

text \<open>Then the three early returns: the field is disabled, \<^verbatim>\<open>drop\<close> is the boolean true, or
  \<^verbatim>\<open>drop\<close> is a function that answers a truthy value.\<close>

definition export_skip ::
  "schema \<Rightarrow> unit env \<Rightarrow> (string \<times> jsval) list \<Rightarrow> jsval \<Rightarrow> string \<Rightarrow> jsval \<Rightarrow> jsval \<Rightarrow> bool act"
where
  "export_skip S E data context key def value =
     (let drop = prop_of def ''drop'';
          handle = prop_of def ''catch''
      in
      then_do (invoke S ''disabled'' (Schema_disabled S E key context)) (\<lambda>disabled.
      if truthy disabled then ret True
      else if isBoolean drop \<and> truthy drop then ret True
      else if isFunction drop then
        then_do (invoke S ''_trydo''
                   (Schema_trydo S (callf E drop context [value, Str key, obj data])
                      (fallback E handle context (Bool False))
                      [(''key'', Str key), (''meta'', Str ''drop'')] Undefined)) (\<lambda>bool.
        ret (truthy bool))
      else ret False))"

text \<open>Last the value that goes to \<^verbatim>\<open>output[key]\<close>.\<close>

definition export_emit ::
  "schema \<Rightarrow> unit env \<Rightarrow> (string \<times> jsval) list \<Rightarrow> jsval \<Rightarrow> string \<Rightarrow> jsval \<Rightarrow> jsval \<Rightarrow> jsval act"
where
  "export_emit S E data context key def value =
     (let map = prop_of def ''map'';
          handle = prop_of def ''catch''
      in
      if isFunction map then
        invoke S ''_trydo''
          (Schema_trydo S (callf E map context [value, Str key, obj data])
             (fallback E handle context value)
             [(''key'', Str key), (''meta'', Str ''map'')] Undefined)
      else ret value)"

text \<open>The body of the loop, on the pair of \<^verbatim>\<open>patch\<close> and \<^verbatim>\<open>output\<close>.\<close>

definition export_field ::
  "schema \<Rightarrow> unit env \<Rightarrow> (string \<times> jsval) list \<Rightarrow> jsval \<Rightarrow> string \<Rightarrow> jsval
     \<Rightarrow> (string \<times> jsval) list \<times> (string \<times> jsval) list
     \<Rightarrow> ((string \<times> jsval) list \<times> (string \<times> jsval) list) act"
where
  "export_field S E data context key def acc =
     (let patch = fst acc; output = snd acc; value = data_at data key
      in
      then_do (export_flat S E data context key def value patch) (\<lambda>patch.
      then_do (export_skip S E data context key def value) (\<lambda>skip.
      if skip then ret (patch, output)
      else
        then_do (export_emit S E data context key def value) (\<lambda>res.
        ret (patch, put key res output)))))"

text \<open>\<^verbatim>\<open>export(data, context)\<close>\<close>

definition Schema_export ::
  "schema \<Rightarrow> unit env \<Rightarrow> (string \<times> jsval) list \<Rightarrow> jsval \<Rightarrow> jsval act"
where
  "Schema_export S E data context =
     then_do (each_field (export_field S E data context) (defs S) ([], [])) (\<lambda>acc.
     ret (obj (assign (snd acc) (fst acc))))"

text \<open>
  \<^verbatim>\<open>$default(key)\<close>. \<^verbatim>\<open>clone\<close> comes from ts-fns and is a parameter: it runs on a state
  \<open>'s\<close> of its own (the addresses it may hand out) and returns the copy. The default is
  called with no receiver.
\<close>

definition Schema_dollar_default ::
  "('s \<Rightarrow> 'r val \<Rightarrow> 'r val \<times> 's) \<Rightarrow> 'r schema_rec \<Rightarrow> 'r env \<Rightarrow> string \<Rightarrow> 's
     \<Rightarrow> ('r val + 'r val) \<times> 's"
where
  "Schema_dollar_default clone S E key s =
     (let def = field S key in
      if isUndefined def then (Inl (ErrV ''TypeError'' ''cannot destructure undefined''), s)
      else
        let defaultValue = prop_of def ''default'' in
        if isFunction defaultValue then (callf E defaultValue Undefined [], s)
        else if isObject defaultValue \<or> isArray defaultValue then
          (case clone s defaultValue of (copy, s') \<Rightarrow> (Inr copy, s'))
        else (Inr defaultValue, s))"



section \<open>Names for what the theorems talk about\<close>

text \<open>The object that \<^verbatim>\<open>set\<close> passes to \<^verbatim>\<open>onError\<close> when it refuses a write; \<open>flag\<close> is
  \<^verbatim>\<open>disabled\<close> or \<^verbatim>\<open>readonly\<close>.\<close>

definition refusal :: "string \<Rightarrow> string \<Rightarrow> jsval \<Rightarrow> jsval \<Rightarrow> jsval \<Rightarrow> jsval" where
  "refusal key flag next prev m =
     obj [(''key'', Str key), (''action'', Str ''set''), (''next'', next), (''prev'', prev),
          (flag, Bool True), (''message'', m)]"


text \<open>The object that \<^verbatim>\<open>_trydo\<close> builds from \<^verbatim>\<open>{ key, meta }\<close> and the thrown error.\<close>

definition caught :: "string \<Rightarrow> string \<Rightarrow> jsval \<Rightarrow> jsval" where
  "caught key name error = obj [(''key'', Str key), (''meta'', Str name), (''error'', error)]"




text \<open>
  The two error sinks of a field return: the \<^verbatim>\<open>onError\<close> hook on every object, and the
  field's \<^verbatim>\<open>catch\<close> handler, when it is a function, on every error.
\<close>

definition sinks_return :: "schema \<Rightarrow> unit env \<Rightarrow> string \<Rightarrow> jsval \<Rightarrow> bool" where
  "sinks_return S E key context \<longleftrightarrow>
     (\<forall>e. \<exists>r. onError S e = Inr r) \<and>
     (isFunction (prop_of (field S key) ''catch'') \<longrightarrow>
        (\<forall>e. \<exists>r. callf E (prop_of (field S key) ''catch'') context [e] = Inr r))"



text \<open>
  The shape of every protected call in the schema: \<^verbatim>\<open>_trydo\<close> on the call of a meta
  function, with \<^verbatim>\<open>{ key, meta }\<close> and the fallback built from the field's \<^verbatim>\<open>catch\<close>
  handler and a default.
\<close>

definition protected ::
  "schema \<Rightarrow> unit env \<Rightarrow> string \<Rightarrow> string \<Rightarrow> jsval + jsval \<Rightarrow> jsval \<Rightarrow> jsval \<Rightarrow> jsval \<Rightarrow> jsval
     \<Rightarrow> jsval act"
where
  "protected S E key name fn handle context dflt force =
     Schema_trydo S fn (fallback E handle context dflt) [(''key'', Str key), (''meta'', Str name)] force"

section \<open>Example schemas\<close>

text \<open>An environment in which every function returns undefined and every type check passes.\<close>

definition quiet :: "unit env" where
  "quiet = \<lparr> call = (\<lambda>f this args. Inr Undefined), ty_catch = (\<lambda>value type. Null) \<rparr>"


text \<open>\<^verbatim>\<open>{ name: { default: '', readonly: true } }\<close>\<close>

definition readonly_schema :: schema where
  "readonly_schema = Schema_new [(''name'', obj [(''default'', Str []), (''readonly'', Bool True)])]"

text \<open>
  \<^verbatim>\<open>{ name: { disabled: { determine: true, message() { throw new Error('no message') } },
             catch(e) { throw new Error('handler failed') } } }\<close>
\<close>

definition rethrow_schema :: schema where
  "rethrow_schema =
     Schema_new [(''name'', obj [(''disabled'', obj [(''determine'', Bool True), (''message'', Fun 0)]),
                                 (''catch'', Fun 1)])]"

definition rethrow_env :: "unit env" where
  "rethrow_env =
     \<lparr> call = (\<lambda>f this args. if f = Fun 0 then Inl (ErrV ''Error'' ''no message'')
                               else Inl (ErrV ''Error'' ''handler failed'')),
       ty_catch = (\<lambda>value type. Null) \<rparr>"







text \<open>
  \<^verbatim>\<open>{ name: { default: '', validators: [ { validate: () => [ { message: 'inner' } ] } ] } }\<close>:
  a validator that answers the errors of a submodel.
\<close>

definition nested_schema :: schema where
  "nested_schema =
     Schema_new [(''name'', obj [(''default'', Str []),
                                 (''validators'', arr [obj [(''validate'', Fun 0)]])])]"

definition nested_env :: "unit env" where
  "nested_env =
     \<lparr> call = (\<lambda>f this args. Inr (arr [obj [(''message'', Str ''inner'')]])),
       ty_catch = (\<lambda>value type. Null) \<rparr>"





text \<open>
  \<^verbatim>\<open>{ name: { default: '' }, password: { default: '', drop: true },
     profile: { default: {}, flat: v => ({ firstName: v.f, lastName: v.l }) } }\<close>
\<close>

definition profile_schema :: schema where
  "profile_schema =
     Schema_new [(''name'', obj [(''default'', Str [])]),
                 (''password'', obj [(''default'', Str []), (''drop'', Bool True)]),
                 (''profile'', obj [(''default'', obj []), (''flat'', Fun 0)])]"

definition profile_env :: "unit env" where
  "profile_env =
     \<lparr> call = (\<lambda>f this args. case args of
                                 v # _ \<Rightarrow> Inr (obj [(''firstName'', prop_of v ''f''),
                                                      (''lastName'', prop_of v ''l'')])
                               | [] \<Rightarrow> Inr Undefined),
       ty_catch = (\<lambda>value type. Null) \<rparr>"

definition profile_data :: "(string \<times> jsval) list" where
  "profile_data =
     [(''name'', Str ''tom''), (''password'', Str ''secret''),
      (''profile'', obj [(''f'', Str ''A''), (''l'', Str ''B'')])]"

text \<open>
  Schemas with a field called after a method of the class:
  \<^verbatim>\<open>{ name: { default: '' }, disabled: { default: false } }\<close>, and the schemas of the getter
  and of the computed field above with the further field \<^verbatim>\<open>onError: { default: null }\<close>.
\<close>

definition masked_schema :: schema where
  "masked_schema =
     Schema_new [(''name'', obj [(''default'', Str [])]),
                 (''disabled'', obj [(''default'', Bool False)])]"



text \<open>\<^verbatim>\<open>{ a: { drop: 1 } }\<close>: a \<^verbatim>\<open>drop\<close> that is truthy, and neither a boolean nor a function.\<close>

definition drop_schema :: schema where
  "drop_schema = Schema_new [(''a'', obj [(''drop'', Num 1)])]"

section \<open>Cloning a default\<close>

text \<open>
  Modelled from the spec: \<^verbatim>\<open>clone\<close> of ts-fns, which \<^verbatim>\<open>$default\<close> calls and which is not
  part of the sources, is a deep clone: the copy of an array or of a plain object is a
  new array or object whose items are the copies of the items; any other value is
  returned as it is. Identities are addresses: the state is the next free address, and
  every new array or object takes one. The default is taken to be a tree (no object
  occurs twice in it).
\<close>

fun deep_clone :: "nat \<Rightarrow> nat val \<Rightarrow> nat val \<times> nat"
  and clone_items :: "nat \<Rightarrow> nat val list \<Rightarrow> nat val list \<times> nat"
  and clone_fields :: "nat \<Rightarrow> (string \<times> nat val) list \<Rightarrow> (string \<times> nat val) list \<times> nat"
where
  "deep_clone n (Arr a xs) = (case clone_items (Suc n) xs of (ys, n') \<Rightarrow> (Arr n ys, n'))"
| "deep_clone n (Obj a fs) = (case clone_fields (Suc n) fs of (gs, n') \<Rightarrow> (Obj n gs, n'))"
| "deep_clone n Undefined = (Undefined, n)"
| "deep_clone n Null = (Null, n)"
| "deep_clone n (Bool b) = (Bool b, n)"
| "deep_clone n (Num i) = (Num i, n)"
| "deep_clone n NaN = (NaN, n)"
| "deep_clone n (Str s) = (Str s, n)"
| "deep_clone n (Fun f) = (Fun f, n)"
| "deep_clone n (Method m) = (Method m, n)"
| "deep_clone n (Ctor c) = (Ctor c, n)"
| "deep_clone n (ErrV c m) = (ErrV c m, n)"
| "deep_clone n (Inst c i) = (Inst c i, n)"
| "deep_clone n (Proto c) = (Proto c, n)"
| "clone_items n [] = ([], n)"
| "clone_items n (x # xs) =
     (case deep_clone n x of (y, n1) \<Rightarrow>
        (case clone_items n1 xs of (ys, n2) \<Rightarrow> (y # ys, n2)))"
| "clone_fields n [] = ([], n)"
| "clone_fields n (f # fs) =
     (case deep_clone n (snd f) of (y, n1) \<Rightarrow>
        (case clone_fields n1 fs of (gs, n2) \<Rightarrow> ((fst f, y) # gs, n2)))"

text \<open>The addresses of the arrays and objects of a value, and the value without them.\<close>

fun addresses :: "nat val \<Rightarrow> nat set"
  and addresses_items :: "nat val list \<Rightarrow> nat set"
  and addresses_fields :: "(string \<times> nat val) list \<Rightarrow> nat set"
where
  "addresses (Arr a xs) = insert a (addresses_items xs)"
| "addresses (Obj a fs) = insert a (addresses_fields fs)"
| "addresses Undefined = {}"
| "addresses Null = {}"
| "addresses (Bool b) = {}"
| "addresses (Num i) = {}"
| "addresses NaN = {}"
| "addresses (Str s) = {}"
| "addresses (Fun f) = {}"
| "addresses (Method m) = {}"
| "addresses (Ctor c) = {}"
| "addresses (ErrV c m) = {}"
| "addresses (Inst c i) = {}"
| "addresses (Proto c) = {}"
| "addresses_items [] = {}"
| "addresses_items (x # xs) = addresses x \<union> addresses_items xs"
| "addresses_fields [] = {}"
| "addresses_fields (f # fs) = addresses (snd f) \<union> addresses_fields fs"

fun content :: "nat val \<Rightarrow> jsval"
  and content_items :: "nat val list \<Rightarrow> jsval list"
  and content_fields :: "(string \<times> nat val) list \<Rightarrow> (string \<times> jsval) list"
where
  "content (Arr a xs) = Arr () (content_items xs)"
| "content (Obj a fs) = Obj () (content_fields fs)"
| "content Undefined = Undefined"
| "content Null = Null"
| "content (Bool b) = Bool b"
| "content (Num i) = Num i"
| "content NaN = NaN"
| "content (Str s) = Str s"
| "content (Fun f) = Fun f"
| "content (Method m) = Method m"
| "content (Ctor c) = Ctor c"
| "content (ErrV c m) = ErrV c m"
| "content (Inst c i) = Inst c i"
| "content (Proto c) = Proto c"
| "content_items [] = []"
| "content_items (x # xs) = content x # content_items xs"
| "content_fields [] = []"
| "content_fields (f # fs) = (fst f, content (snd f)) # content_fields fs"

text \<open>
  \<^verbatim>\<open>{ tags: { default: ['a', { n: 1 }] }, created: { default: () => 7 }, name: { default: 'x' } }\<close>,
  the array at address 0 and the object in it at address 1.
\<close>

definition defaults_schema :: "nat schema_rec" where
  "defaults_schema =
     \<lparr> defs = [(''tags'', Obj 2 [(''default'', Arr 0 [Str ''a'', Obj 1 [(''n'', Num 1)]])]),
               (''created'', Obj 3 [(''default'', Fun 0)]),
               (''name'', Obj 4 [(''default'', Str ''x'')])],
       onError = (\<lambda>e. Inr Undefined) \<rparr>"

definition defaults_env :: "nat env" where
  "defaults_env = \<lparr> call = (\<lambda>f this args. Inr (Num 7)), ty_catch = (\<lambda>value type. Null) \<rparr>"

section \<open>The type facade\<close>

text \<open>
  Modelled from the spec: the error class of the type system (\<^verbatim>\<open>error.js\<close> is not part of
  the sources) is a structured error with a kind and the places it passed on the way up.
  \<^verbatim>\<open>new TyError(kind, info)\<close> has the one place \<open>info\<close>; \<^verbatim>\<open>makeError(error, info)\<close> keeps
  the kind of the error and adds the place.
\<close>

record place =
  at_value :: jsval
  at_pattern :: jsval
  at_level :: string
  at_action :: string
  at_index :: "nat option"
  at_length :: "nat option"

datatype tyerror = TyError (kind: string) (places: "place list")

definition makeError :: "tyerror \<Rightarrow> place \<Rightarrow> tyerror" where
  "makeError error info = TyError (kind error) (info # places error)"

text \<open>
  An instance of \<^verbatim>\<open>Ty\<close> (\<^verbatim>\<open>src/unnamed/part_000\<close>). \<^verbatim>\<open>dispatch\<close> only schedules the listeners
  (\<^verbatim>\<open>Promise.resolve().then\<close>), so it has no effect within the call.
\<close>

record Ty =
  listeners :: "nat list"
  silent :: bool

definition Ty_new :: Ty where
  "Ty_new = \<lparr> listeners = [], silent = False \<rparr>"

text \<open>\<^verbatim>\<open>const ty = new Ty()\<close>, to which the static \<^verbatim>\<open>Ty.expect\<close> and \<^verbatim>\<open>Ty.catch\<close> are bound. The
  module does not export it, and no static reaches \<^verbatim>\<open>silent\<close> or \<^verbatim>\<open>bind\<close> on it.\<close>

definition ty :: Ty where
  "ty = Ty_new"

definition Ty_silent :: "Ty \<Rightarrow> jsval \<Rightarrow> Ty" where
  "Ty_silent T v = T\<lparr> silent := truthy v \<rparr>"

definition Ty_throw :: "Ty \<Rightarrow> tyerror \<Rightarrow> tyerror + unit" where
  "Ty_throw T error = (if \<not> silent T then Inl error else Inr ())"

text \<open>\<^verbatim>\<open>Ty.create(type)\<close>: which class wraps the pattern.\<close>

fun isType :: "jsval \<Rightarrow> bool" where
  "isType (Inst cls _) = (cls \<in> set [''Type'', ''Dict'', ''List'', ''Tuple'', ''Enum'', ''Range''])"
| "isType _ = False"

datatype created = AsDict jsval | AsList jsval | AsClone jsval | AsType jsval

definition Ty_create :: "jsval \<Rightarrow> created" where
  "Ty_create type =
     (if isObject type then AsDict type
      else if isArray type then AsList type
      else if isType type then AsClone type
      else AsType type)"

text \<open>
  What \<^verbatim>\<open>assert\<close> does on each created type is a parameter \<open>A\<close>: it throws an error
  (\<open>Inl\<close>) or returns.

  \<^verbatim>\<open>expect(value).to.match(type)\<close>
\<close>

definition Ty_expect_to_match ::
  "(created \<Rightarrow> jsval \<Rightarrow> tyerror + unit) \<Rightarrow> Ty \<Rightarrow> jsval \<Rightarrow> jsval \<Rightarrow> tyerror + bool"
where
  "Ty_expect_to_match A T value type =
     (let type = Ty_create type in
      case A type value of
        Inr _ \<Rightarrow> Inr True
      | Inl e \<Rightarrow> (case Ty_throw T e of Inl x \<Rightarrow> Inl x | Inr _ \<Rightarrow> Inr False))"

text \<open>
  Modelled from the spec: \<^verbatim>\<open>Type.catch(value)\<close> (\<^verbatim>\<open>type.js\<close> is not part of the sources) is
  the non-throwing wrapper of \<^verbatim>\<open>assert\<close>, returning the error or null.
\<close>

definition Type_catch :: "(created \<Rightarrow> jsval \<Rightarrow> tyerror + unit) \<Rightarrow> created \<Rightarrow> jsval \<Rightarrow> tyerror option" where
  "Type_catch A type value = (case A type value of Inl e \<Rightarrow> Some e | Inr _ \<Rightarrow> None)"

text \<open>\<^verbatim>\<open>catch(value).by(type)\<close>; the \<^verbatim>\<open>dispatch\<close> of an error it has found only schedules
  the listeners.\<close>

definition Ty_catch_by ::
  "(created \<Rightarrow> jsval \<Rightarrow> tyerror + unit) \<Rightarrow> Ty \<Rightarrow> jsval \<Rightarrow> jsval \<Rightarrow> tyerror + tyerror option"
where
  "Ty_catch_by A T value type =
     (let type = Ty_create type;
          error = Type_catch A type value
      in Inr error)"

text \<open>An \<^verbatim>\<open>assert\<close> that accepts numbers only, for every created type.\<close>

definition numbers_only :: "created \<Rightarrow> jsval \<Rightarrow> tyerror + unit" where
  "numbers_only type value =
     (if isNumber value then Inr ()
      else Inl (TyError ''mistaken''
             [\<lparr> at_value = value, at_pattern = Ctor ''Number'', at_level = ''type'',
                at_action = ''assert'', at_index = None, at_length = None \<rparr>]))"

section \<open>Tuple\<close>

text \<open>
  The registry of \<^verbatim>\<open>Prototype\<close> (second part of \<^verbatim>\<open>src/src/list.js\<close>): the tokens registered
  at load time with their predicates. \<^verbatim>\<open>Symbol\<close> and \<^verbatim>\<open>Infinity\<close> are registered too, but
  the model has no symbol and no infinite number. \<^verbatim>\<open>Prototype.find(proto)\<close> looks a token
  up.
\<close>

definition prototypes :: "(jsval \<times> (jsval \<Rightarrow> bool)) list" where
  "prototypes =
     [(Ctor ''Number'', isNumber), (Ctor ''String'', isString), (Ctor ''Boolean'', isBoolean),
      (Ctor ''Object'', isObject), (Ctor ''Array'', isArray), (Ctor ''Function'', isFunction),
      (Ctor ''Symbol'', (\<lambda>v. False))]"

definition Prototype_find :: "jsval \<Rightarrow> (jsval \<Rightarrow> bool) option" where
  "Prototype_find proto = map_of prototypes proto"

definition here :: "jsval \<Rightarrow> jsval \<Rightarrow> string \<Rightarrow> place" where
  "here value pattern action =
     \<lparr> at_value = value, at_pattern = pattern, at_level = ''type'', at_action = action,
       at_index = None, at_length = None \<rparr>"

text \<open>
  Modelled from the spec: \<^verbatim>\<open>Type.validate(value, pattern)\<close> (\<^verbatim>\<open>type.js\<close> is not part of the
  sources) answers an error or null. A token that the registry knows is decided by its
  predicate there, as \<^verbatim>\<open>Prototype.is(pattern).typeof(value)\<close> does, and a mismatch is a
  \<^verbatim>\<open>mistaken\<close> error. An item of a tuple at a position past the patterns is validated
  against \<^verbatim>\<open>undefined\<close>; the spec has extra positions rejected in strict mode only, and has
  the loose assertion of such a tuple pass, so \<^verbatim>\<open>validate\<close> accepts an item that has no
  pattern. What \<^verbatim>\<open>validate\<close> answers on any other pattern is the parameter \<open>other\<close>.
\<close>

definition Type_validate ::
  "(jsval \<Rightarrow> jsval \<Rightarrow> tyerror option) \<Rightarrow> jsval \<Rightarrow> jsval \<Rightarrow> tyerror option"
where
  "Type_validate other value pattern =
     (case Prototype_find pattern of
        Some validate \<Rightarrow>
          if validate value then None
          else Some (TyError ''mistaken'' [here value pattern ''validate''])
      | None \<Rightarrow> if isUndefined pattern then None else other value pattern)"

text \<open>
  The loop of \<^verbatim>\<open>Tuple.assert\<close> over the indices of the items. \<^verbatim>\<open>patterns[i]\<close> past the end
  of the patterns is undefined. \<open>V\<close> is \<^verbatim>\<open>this.validate\<close>, \<open>R\<close> is \<^verbatim>\<open>pattern.validate2\<close> of a
  rule; both answer an error or null.
\<close>

fun Tuple_items ::
  "(jsval \<Rightarrow> jsval \<Rightarrow> tyerror option) \<Rightarrow> (jsval \<Rightarrow> jsval \<Rightarrow> nat \<Rightarrow> jsval list \<Rightarrow> tyerror option)
     \<Rightarrow> place \<Rightarrow> jsval list \<Rightarrow> jsval list \<Rightarrow> nat list \<Rightarrow> tyerror + unit"
where
  "Tuple_items V R info patterns items [] = Inr ()"
| "Tuple_items V R info patterns items (i # rest) =
     (let value = items ! i;
          pattern = (if i < length patterns then patterns ! i else Undefined);
          info' = info\<lparr> at_index := Some i, at_value := value, at_pattern := pattern \<rparr>
      in
      if isRule pattern then
        (case R pattern value i items of
           Some error \<Rightarrow> Inl (makeError error info')
         | None \<Rightarrow> Tuple_items V R info patterns items rest)
      else
        (case V value pattern of
           Some error \<Rightarrow> Inl (makeError error info')
         | None \<Rightarrow> Tuple_items V R info patterns items rest))"

text \<open>\<^verbatim>\<open>Tuple.assert(value)\<close> of a tuple with this mode and this pattern: it throws or returns.\<close>

definition Tuple_assert ::
  "(jsval \<Rightarrow> jsval \<Rightarrow> tyerror option) \<Rightarrow> (jsval \<Rightarrow> jsval \<Rightarrow> nat \<Rightarrow> jsval list \<Rightarrow> tyerror option)
     \<Rightarrow> string \<Rightarrow> jsval list \<Rightarrow> jsval \<Rightarrow> tyerror + unit"
where
  "Tuple_assert V R mode pattern value =
     (let info = here value (arr pattern) ''assert'' in
      case value of
        Arr _ items \<Rightarrow>
          (let patternCount = length pattern;
               itemCount = length items
           in
           if mode = ''strict'' \<and> itemCount \<noteq> patternCount
           then Inl (TyError ''dirty'' [info\<lparr> at_length := Some patternCount \<rparr>])
           else Tuple_items V R info pattern items [0..<itemCount])
      | _ \<Rightarrow> Inl (TyError ''mistaken'' [info]))"

text \<open>\<^verbatim>\<open>Tuple([Number, String])\<close>, a rule hook that is never reached by it, and a \<^verbatim>\<open>validate\<close>
  that rejects every pattern that is neither a known token nor missing.\<close>

definition number_string :: "jsval list" where
  "number_string = [Ctor ''Number'', Ctor ''String'']"

definition no_rule :: "jsval \<Rightarrow> jsval \<Rightarrow> nat \<Rightarrow> jsval list \<Rightarrow> tyerror option" where
  "no_rule pattern value i items = None"

definition unknown_pattern :: "jsval \<Rightarrow> jsval \<Rightarrow> tyerror option" where
  "unknown_pattern value pattern = Some (TyError ''mistaken'' [here value pattern ''validate''])"

section \<open>Running actions\<close>

lemma ret_apply: "ret x log = (Inr x, log)"
  by (simp add: ret_def)

lemma throw_apply: "throw e log = (Inl e, log)"
  by (simp add: throw_def)

lemma lift_apply: "lift r log = (r, log)"
  by (simp add: lift_def)

lemma then_do_apply:
  "then_do m f log = (case m log of (Inl e, log') \<Rightarrow> (Inl e, log') | (Inr x, log') \<Rightarrow> f x log')"
  by (simp add: then_do_def)

lemma then_do_returns: "m log = (Inr x, log') \<Longrightarrow> then_do m f log = f x log'"
  by (simp add: then_do_def)

lemma then_do_throws: "m log = (Inl e, log') \<Longrightarrow> then_do m f log = (Inl e, log')"
  by (simp add: then_do_def)

lemma invoke_own: "name \<in> fst ` set (defs S) \<Longrightarrow>
    invoke S name body log = (Inl (ErrV ''TypeError'' (''this.'' @ name @ '' is not a function'')), log)"
  by (simp add: invoke_def throw_def)

lemma invoke_free: "name \<notin> fst ` set (defs S) \<Longrightarrow> invoke S name body = body"
  by (simp add: invoke_def)

lemma unshadowed_free:
  assumes "unshadowed S"
  shows "invoke S ''$message'' a = a" "invoke S ''$determine'' b = b" "invoke S ''required'' c = c"
        "invoke S ''disabled'' d = d" "invoke S ''readonly'' e = e" "invoke S ''$set'' f = f"
        "invoke S ''$validate'' g = g" "invoke S ''_trydo'' h = h" "invoke S ''onError'' i = i"
        "invoke S ''$default'' j = j"
  using assms by (simp_all add: unshadowed_def Schema_prototype_def invoke_def)

lemma report_apply: "unshadowed S \<Longrightarrow> report S e log = (onError S e, log @ [e])"
  by (simp add: report_def unshadowed_free)

lemmas act_simps = ret_apply throw_apply lift_apply then_do_apply

section \<open>Validating a key that the schema does not define\<close>

lemma field_absent:
  assumes "key \<notin> fst ` set (defs S)" "key \<notin> set Schema_prototype" "key \<notin> set Object_prototype"
  shows "field S key = Undefined"
proof -
  from assms(1) have "map_of (defs S) key = None"
    by (simp add: map_of_eq_None_iff)
  moreover from assms(2) have "key \<noteq> ''constructor''"
    by (auto simp add: Schema_prototype_def)
  moreover from assms(3) have "key \<noteq> ''__proto__''"
    by (auto simp add: Object_prototype_def)
  ultimately show ?thesis
    using assms(2,3) by (simp add: field_def)
qed

text \<open>
  C10, as the code has it. For a key that is not a field of the schema and is not the
  name of a member that the instance inherits (a method of \<^verbatim>\<open>Schema\<close>, a member of
  \<^verbatim>\<open>Object.prototype\<close>), whatever the value and the context, \<^verbatim>\<open>validate\<close> returns an array of
  exactly one error, whose message says that the key is not existing in the schema; it
  does not throw, and it reports nothing to \<^verbatim>\<open>onError\<close>.
\<close>

theorem validate_undefined_key:
  assumes "key \<notin> fst ` set (defs S)"
      and "key \<notin> set Schema_prototype" and "key \<notin> set Object_prototype"
  shows "Schema_validate S E key v ctx log =
           (Inr (arr [obj [(''key'', Str key), (''value'', v),
                           (''message'', Str (key @ '' is not existing in schema.''))]]), log)"
  using field_absent [OF assms] by (simp add: Schema_validate_def ret_apply)

theorem validate_undefined_key_witness:
  "''age'' \<notin> fst ` set (defs readonly_schema)
   \<and> ''age'' \<notin> set Schema_prototype \<and> ''age'' \<notin> set Object_prototype
   \<and> Schema_validate readonly_schema quiet ''age'' (Num 3) Null [] =
       (Inr (arr [obj [(''key'', Str ''age''), (''value'', Num 3),
                       (''message'', Str ''age is not existing in schema.'')]]), [])"
proof -
  have a: "''age'' \<notin> fst ` set (defs readonly_schema)"
    by (simp add: readonly_schema_def Schema_new_def)
  have b: "''age'' \<notin> set Schema_prototype"
    by (simp add: Schema_prototype_def)
  have c: "''age'' \<notin> set Object_prototype"
    by (simp add: Object_prototype_def)
  show ?thesis
    using a b c validate_undefined_key [OF a b c, of quiet "Num 3" Null "[]"]
    by simp
qed

text \<open>
  As the claim states it, C10 fails: \<^verbatim>\<open>toString\<close> has no definition in this schema, whose
  only field is \<^verbatim>\<open>name\<close>, but \<^verbatim>\<open>this['toString']\<close> is the function that every object
  inherits, so \<^verbatim>\<open>validate\<close> takes it for a definition without metas and returns the empty
  array.
\<close>

theorem validate_inherited_key_counterexample:
  "''toString'' \<notin> fst ` set (defs readonly_schema)
   \<and> Schema_validate readonly_schema quiet ''toString'' (Num 3) Null [] = (Inr (arr []), [])"
  by (simp add: readonly_schema_def Schema_new_def field_def Schema_prototype_def Object_prototype_def
        Schema_validate_def Schema_disabled_def Schema_required_def Schema_dollar_determine_def
        Schema_dollar_validate_def validateByRange_def validate_type_def invoke_def
        act_simps upto.simps Let_def)

section \<open>The protected call\<close>

lemma trydo_returns:
  "Schema_trydo S (Inr v) fb basic force log = (Inr v, log)"
  by (simp add: Schema_trydo_def lift_apply ret_apply)


lemma trydo_caught:
  "unshadowed S \<Longrightarrow> \<not> truthy force \<Longrightarrow>
   Schema_trydo S (Inl error) fb basic force log =
     (case onError S (obj (AList.update ''error'' error basic)) of
        Inl x \<Rightarrow> Inl x
      | Inr r \<Rightarrow> fb (if truthy r then r else obj (AList.update ''error'' error basic)),
      log @ [obj (AList.update ''error'' error basic)])"
  by (simp add: Schema_trydo_def Let_def act_simps report_apply split: sum.splits)





lemma fallback_total:
  assumes "isFunction handle \<longrightarrow> (\<forall>e. \<exists>r. callf E handle ctx [e] = Inr r)"
  shows "\<exists>r. fallback E handle ctx d e = Inr r"
proof (cases "isFunction handle")
  case True
  with assms obtain r where "callf E handle ctx [e] = Inr r" by blast
  with True show ?thesis by (simp add: fallback_def)
next
  case False
  then show ?thesis by (simp add: fallback_def)
qed

lemma trydo_total:
  assumes "unshadowed S"
      and "\<forall>e. \<exists>r. onError S e = Inr r"
      and "isFunction handle \<longrightarrow> (\<forall>e. \<exists>r. callf E handle ctx [e] = Inr r)"
      and "\<not> truthy force"
  shows "\<exists>v log'. Schema_trydo S fn (fallback E handle ctx d) basic force log = (Inr v, log')"
proof (cases fn)
  case (Inr v)
  then show ?thesis by (simp add: trydo_returns)
next
  case (Inl error)
  let ?err = "obj (AList.update ''error'' error basic)"
  from assms(2) obtain r where r: "onError S ?err = Inr r" by blast
  obtain v where "fallback E handle ctx d (if truthy r then r else ?err) = Inr v"
    using fallback_total [OF assms(3)] by blast
  with Inl r assms(1,4) show ?thesis
    by (simp add: trydo_caught)
qed

lemma field_trydo_total:
  assumes "unshadowed S" "sinks_return S E key ctx"
  shows "\<exists>v log'. Schema_trydo S fn (fallback E (prop_of (field S key) ''catch'') ctx d)
                     basic Undefined log = (Inr v, log')"
  using assms by (intro trydo_total) (simp_all add: sinks_return_def)

lemma determine_total:
  assumes "unshadowed S" "sinks_return S E key ctx"
  shows "\<exists>v log'. Schema_dollar_determine S E key meta ctx fb log = (Inr v, log')"
  unfolding Schema_dollar_determine_def Let_def
  by (simp add: ret_apply unshadowed_free [OF assms(1)] field_trydo_total [OF assms])

lemma message_total:
  assumes "unshadowed S" "sinks_return S E key ctx"
  shows "\<exists>v log'. Schema_dollar_message S E key meta ctx given log = (Inr v, log')"
  unfolding Schema_dollar_message_def Let_def
  by (simp add: ret_apply unshadowed_free [OF assms(1)] field_trydo_total [OF assms])

lemma disabled_total:
  assumes "unshadowed S" "sinks_return S E key ctx"
  shows "\<exists>v log'. Schema_disabled S E key ctx log = (Inr v, log')"
  unfolding Schema_disabled_def
  by (simp add: unshadowed_free [OF assms(1)] determine_total [OF assms])

lemma readonly_total:
  assumes "unshadowed S" "sinks_return S E key ctx"
  shows "\<exists>v log'. Schema_readonly S E key ctx log = (Inr v, log')"
  unfolding Schema_readonly_def
  by (simp add: unshadowed_free [OF assms(1)] determine_total [OF assms])


lemma definition_truthy: "isObject d \<Longrightarrow> truthy d \<and> \<not> isUndefined d \<and> d \<noteq> Null"
  by (cases d) simp_all

section \<open>Writing through the guards\<close>

lemma set_disabled:
  assumes "unshadowed S" "isObject (field S key)"
      and "Schema_disabled S E key ctx log = (Inr d, la)" "truthy d"
      and "Schema_dollar_message S E key disabled_meta ctx d la = (Inr m, lb)"
      and "onError S (refusal key ''disabled'' next prev m) = Inr r"
  shows "Schema_set S E key next prev ctx log =
           (Inr prev, lb @ [refusal key ''disabled'' next prev m])"
  using assms definition_truthy [OF assms(2)]
  by (simp add: Schema_set_def Let_def act_simps report_apply refusal_def unshadowed_free)

lemma set_readonly:
  assumes "unshadowed S" "isObject (field S key)"
      and "Schema_disabled S E key ctx log = (Inr d, la)" "\<not> truthy d"
      and "Schema_readonly S E key ctx la = (Inr ro, lb)" "truthy ro"
      and "Schema_dollar_message S E key readonly_meta ctx ro lb = (Inr m, lc)"
      and "onError S (refusal key ''readonly'' next prev m) = Inr r"
  shows "Schema_set S E key next prev ctx log =
           (Inr prev, lc @ [refusal key ''readonly'' next prev m])"
  using assms definition_truthy [OF assms(2)]
  by (simp add: Schema_set_def Let_def act_simps report_apply refusal_def unshadowed_free)

lemma set_delegates:
  assumes "unshadowed S" "isObject (field S key)"
      and "Schema_disabled S E key ctx log = (Inr d, la)" "\<not> truthy d"
      and "Schema_readonly S E key ctx la = (Inr ro, lb)" "\<not> truthy ro"
  shows "Schema_set S E key next prev ctx log = Schema_dollar_set S E key next ctx lb"
  using assms definition_truthy [OF assms(2)]
  by (simp add: Schema_set_def Let_def act_simps unshadowed_free)

text \<open>
  C1, as the code has it. For a key with a definition, in a schema that has no field
  called after a method of the class, and as long as the two error sinks of the field
  return (the \<^verbatim>\<open>onError\<close> hook and the field's \<^verbatim>\<open>catch\<close> handler), \<^verbatim>\<open>set\<close> does not throw before
  it delegates: it evaluates \<^verbatim>\<open>disabled\<close>; if that is truthy it evaluates the message,
  reports the refusal to \<^verbatim>\<open>onError\<close> and returns \<^verbatim>\<open>prev\<close>; otherwise it evaluates \<^verbatim>\<open>readonly\<close>
  and does the same for it; and only when both are falsy is its outcome the outcome of
  \<^verbatim>\<open>$set(key, next, context)\<close>, run on the log that the two evaluations left.
\<close>

theorem set_refuses_or_delegates:
  assumes free: "unshadowed S"
      and def: "isObject (field S key)"
      and sinks: "sinks_return S E key ctx"
  shows "\<exists>d la. Schema_disabled S E key ctx log = (Inr d, la) \<and>
           (if truthy d then
              (\<exists>m lb. Schema_dollar_message S E key disabled_meta ctx d la = (Inr m, lb) \<and>
                 Schema_set S E key next prev ctx log =
                   (Inr prev, lb @ [refusal key ''disabled'' next prev m]))
            else
              (\<exists>ro lb. Schema_readonly S E key ctx la = (Inr ro, lb) \<and>
                 (if truthy ro then
                    (\<exists>m lc. Schema_dollar_message S E key readonly_meta ctx ro lb = (Inr m, lc) \<and>
                       Schema_set S E key next prev ctx log =
                         (Inr prev, lc @ [refusal key ''readonly'' next prev m]))
                  else
                    Schema_set S E key next prev ctx log =
                      Schema_dollar_set S E key next ctx lb)))"
proof -
  have hook: "\<And>e. \<exists>r. onError S e = Inr r"
    using sinks by (simp add: sinks_return_def)
  obtain d la where d: "Schema_disabled S E key ctx log = (Inr d, la)"
    using disabled_total [OF free sinks] by blast
  show ?thesis
  proof (cases "truthy d")
    case True
    obtain m lb where m: "Schema_dollar_message S E key disabled_meta ctx d la = (Inr m, lb)"
      using message_total [OF free sinks] by blast
    obtain r where "onError S (refusal key ''disabled'' next prev m) = Inr r"
      using hook by blast
    from set_disabled [OF free def d True m this] d m True show ?thesis by simp
  next
    case False
    obtain ro lb where ro: "Schema_readonly S E key ctx la = (Inr ro, lb)"
      using readonly_total [OF free sinks] by blast
    show ?thesis
    proof (cases "truthy ro")
      case True
      obtain m lc where m: "Schema_dollar_message S E key readonly_meta ctx ro lb = (Inr m, lc)"
        using message_total [OF free sinks] by blast
      obtain r where "onError S (refusal key ''readonly'' next prev m) = Inr r"
        using hook by blast
      from set_readonly [OF free def d False ro True m this] d ro m False True show ?thesis by simp
    next
      case ro_false: False
      from set_delegates [OF free def d False ro ro_false] d ro False ro_false show ?thesis by simp
    qed
  qed
qed

lemma field_readonly_schema:
  "field readonly_schema ''name'' = obj [(''default'', Str []), (''readonly'', Bool True)]"
  by (simp add: readonly_schema_def Schema_new_def field_def)

lemma onError_readonly_schema: "onError readonly_schema e = Inr Undefined"
  by (simp add: readonly_schema_def Schema_new_def Schema_onError_def)

lemma unshadowed_readonly_schema: "unshadowed readonly_schema"
  by (simp add: unshadowed_def Schema_prototype_def readonly_schema_def Schema_new_def)

lemma readonly_schema_disabled:
  "Schema_disabled readonly_schema quiet ''name'' Null log = (Inr (Bool False), log)"
  by (simp add: Schema_disabled_def Schema_dollar_determine_def field_readonly_schema ret_apply
        unshadowed_free [OF unshadowed_readonly_schema])

lemma readonly_schema_readonly:
  "Schema_readonly readonly_schema quiet ''name'' Null log = (Inr (Bool True), log)"
  by (simp add: Schema_readonly_def Schema_dollar_determine_def field_readonly_schema ret_apply
        unshadowed_free [OF unshadowed_readonly_schema])

lemma readonly_schema_message:
  "Schema_dollar_message readonly_schema quiet ''name'' readonly_meta Null (Bool True) log =
     (Inr (Str ''name can not be set new value because of readonly.''), log)"
  by (simp add: Schema_dollar_message_def field_readonly_schema ret_apply)

theorem set_refuses_or_delegates_witness:
  "unshadowed readonly_schema
   \<and> isObject (field readonly_schema ''name'')
   \<and> sinks_return readonly_schema quiet ''name'' Null
   \<and> Schema_set readonly_schema quiet ''name'' (Str ''new'') (Str ''old'') Null [] =
       (Inr (Str ''old''),
        [refusal ''name'' ''readonly'' (Str ''new'') (Str ''old'')
           (Str ''name can not be set new value because of readonly.'')])"
proof -
  have def: "isObject (field readonly_schema ''name'')"
    by (simp add: field_readonly_schema)
  have sinks: "sinks_return readonly_schema quiet ''name'' Null"
    by (simp add: sinks_return_def onError_readonly_schema field_readonly_schema)
  from set_refuses_or_delegates [OF unshadowed_readonly_schema def sinks,
      of "[]" "Str ''new''" "Str ''old''"]
  have "Schema_set readonly_schema quiet ''name'' (Str ''new'') (Str ''old'') Null [] =
       (Inr (Str ''old''),
        [refusal ''name'' ''readonly'' (Str ''new'') (Str ''old'')
           (Str ''name can not be set new value because of readonly.'')])"
    by (simp add: readonly_schema_disabled readonly_schema_readonly readonly_schema_message)
  with unshadowed_readonly_schema def sinks show ?thesis by simp
qed

text \<open>
  As the claim states it, C1 fails: here \<^verbatim>\<open>disabled\<close> resolves to true, the message function
  throws, and the \<^verbatim>\<open>catch\<close> handler that receives the error throws in its turn; \<^verbatim>\<open>set\<close> throws
  what the handler threw, and does not return \<^verbatim>\<open>prev\<close>. And in a schema with a field called
  \<^verbatim>\<open>disabled\<close>, \<^verbatim>\<open>this.disabled\<close> is that definition and not the method: \<^verbatim>\<open>set\<close> on any of
  its fields is a TypeError.
\<close>

theorem set_never_throws_counterexample:
  "isObject (field rethrow_schema ''name'')
   \<and> Schema_disabled rethrow_schema rethrow_env ''name'' Null [] = (Inr (Bool True), [])
   \<and> Schema_set rethrow_schema rethrow_env ''name'' (Str ''new'') (Str ''old'') Null [] =
       (Inl (ErrV ''Error'' ''handler failed''),
        [caught ''name'' ''message'' (ErrV ''Error'' ''no message'')])
   \<and> isObject (field masked_schema ''name'')
   \<and> Schema_set masked_schema quiet ''name'' (Str ''new'') (Str ''old'') Null [] =
       (Inl (ErrV ''TypeError'' ''this.disabled is not a function''), [])"
  by (simp add: rethrow_schema_def rethrow_env_def masked_schema_def Schema_new_def Schema_onError_def
        field_def Schema_set_def Schema_disabled_def Schema_dollar_determine_def
        Schema_dollar_message_def Schema_trydo_def fallback_def caught_def report_def invoke_def
        act_simps Let_def)

section \<open>Writing to a computed field\<close>



lemma function_not_other:
  "isFunction f \<Longrightarrow> \<not> isString f \<and> \<not> isBoolean f \<and> \<not> isObject f \<and> \<not> isArray f"
  by (cases f) simp_all





section \<open>A validator that answers an array\<close>

text \<open>
  C7 on the code. The only validator of \<^verbatim>\<open>name\<close> answers an array of one submodel error.
  \<^verbatim>\<open>validate\<close> does not return a list with that error spliced in: it throws the
  ReferenceError of \<^verbatim>\<open>errors.push(...res)\<close>, and reports nothing.
\<close>

theorem nested_errors_are_not_spliced:
  "callf nested_env (Fun 0) Null [Str ''v'', Str ''name''] = Inr (arr [obj [(''message'', Str ''inner'')]])
   \<and> Schema_validate nested_schema nested_env ''name'' (Str ''v'') Null [] =
       (Inl (ErrV ''ReferenceError'' ''errors is not defined''), [])"
  by (simp add: nested_schema_def nested_env_def Schema_new_def Schema_validate_def field_def
        Schema_disabled_def Schema_required_def Schema_dollar_determine_def
        Schema_dollar_validate_def validateByRange_def runOne_def validator_validate_def
        validator_check_def validator_answer_def invoke_def
        validate_type_def Schema_trydo_def item_at_def act_simps upto.simps Let_def)

section \<open>The stages of validation\<close>










































section \<open>Export\<close>

lemma map_of_put: "k \<noteq> ''__proto__'' \<Longrightarrow> map_of (put k v fs) = (map_of fs)(k \<mapsto> v)"
  by (simp add: put_def update_conv')

lemma map_of_assign:
  "map_of (assign target source) =
     map_of target ++ map_of (rev (filter (\<lambda>(k, v). k \<noteq> ''__proto__'') source))"
proof (induction source arbitrary: target)
  case Nil
  then show ?case by simp
next
  case (Cons p rest)
  obtain k v where p: "p = (k, v)" by (cases p)
  show ?case
  proof (cases "k = ''__proto__''")
    case True
    then show ?thesis
      using Cons.IH [of target] p by (simp add: put_def)
  next
    case False
    have "map_of (assign target (p # rest)) =
            map_of (put k v target) ++ map_of (rev (filter (\<lambda>(k, v). k \<noteq> ''__proto__'') rest))"
      using Cons.IH p by simp
    also have "\<dots> = (map_of target)(k \<mapsto> v) ++ map_of (rev (filter (\<lambda>(k, v). k \<noteq> ''__proto__'') rest))"
      using False by (simp add: map_of_put)
    also have "\<dots> = map_of target ++ map_of (rev (filter (\<lambda>(k, v). k \<noteq> ''__proto__'') (p # rest)))"
      using False by (simp add: p map_of_append)
    finally show ?thesis .
  qed
qed

lemma assign_patch_wins:
  assumes "distinct (map fst patch)" and "(k, v) \<in> set patch" and "k \<noteq> ''__proto__''"
  shows "map_of (assign emitted patch) k = Some v"
proof -
  let ?kept = "filter (\<lambda>(k, v). k \<noteq> ''__proto__'') patch"
  have "distinct (map fst ?kept)"
    using assms(1) by (simp add: distinct_map_filter)
  then have "distinct (map fst (rev ?kept))"
    by (simp add: rev_map [symmetric])
  moreover have "(k, v) \<in> set (rev ?kept)"
    using assms(2,3) by simp
  ultimately have "map_of (rev ?kept) k = Some v"
    by (rule map_of_is_SomeI)
  then show ?thesis
    by (simp add: map_of_assign map_add_def)
qed

lemma assign_output_stays:
  assumes "k \<notin> fst ` set patch"
  shows "map_of (assign emitted patch) k = map_of emitted k"
proof -
  have "k \<notin> fst ` set (rev (filter (\<lambda>(k, v). k \<noteq> ''__proto__'') patch))"
    using assms by auto
  then have "map_of (rev (filter (\<lambda>(k, v). k \<noteq> ''__proto__'') patch)) k = None"
    by (rule map_of_eq_None_iff [THEN iffD2])
  then show ?thesis
    by (simp add: map_of_assign map_add_def)
qed

lemma export_field_steps:
  assumes "export_flat S E data ctx key def (data_at data key) patch log = (Inr patch', la)"
      and "export_skip S E data ctx key def (data_at data key) la = (Inr skip, lb)"
      and "\<not> skip \<longrightarrow> export_emit S E data ctx key def (data_at data key) lb = (Inr res, lc)"
  shows "export_field S E data ctx key def (patch, emitted) log =
           (if skip then (Inr (patch', emitted), lb)
            else (Inr (patch', put key res emitted), lc))"
  using assms by (simp add: export_field_def Let_def act_simps)

lemma export_flat_absent:
  assumes "\<not> isFunction (prop_of def ''flat'')"
  shows "export_flat S E data ctx key def stored patch log = (Inr patch, log)"
  using assms by (simp add: export_flat_def Let_def act_simps)

lemma export_flat_merges:
  assumes "unshadowed S" "isFunction (prop_of def ''flat'')"
      and "protected S E key ''flat''
             (case callf E (prop_of def ''flat'') ctx [stored, Str key, obj data] of
                Inl e \<Rightarrow> Inl e
              | Inr r \<Rightarrow> Inr (if truthy r then r else obj []))
             (prop_of def ''catch'') ctx (obj []) Undefined log = (Inr res, la)"
  shows "export_flat S E data ctx key def stored patch log = (Inr (assign patch (entries res)), la)"
  using assms by (simp add: export_flat_def protected_def Let_def act_simps unshadowed_free)

lemma export_skip_disabled:
  assumes "unshadowed S" "Schema_disabled S E key ctx log = (Inr d, la)" "truthy d"
  shows "export_skip S E data ctx key def stored log = (Inr True, la)"
  using assms by (simp add: export_skip_def Let_def act_simps unshadowed_free)

lemma export_skip_drop_true:
  assumes "unshadowed S" "Schema_disabled S E key ctx log = (Inr d, la)" "\<not> truthy d"
      and "prop_of def ''drop'' = Bool True"
  shows "export_skip S E data ctx key def stored log = (Inr True, la)"
  using assms by (simp add: export_skip_def Let_def act_simps unshadowed_free)

lemma export_skip_drop_function:
  assumes "unshadowed S" "Schema_disabled S E key ctx log = (Inr d, la)" "\<not> truthy d"
      and "isFunction (prop_of def ''drop'')"
      and "protected S E key ''drop'' (callf E (prop_of def ''drop'') ctx [stored, Str key, obj data])
             (prop_of def ''catch'') ctx (Bool False) Undefined la = (Inr b, lb)"
  shows "export_skip S E data ctx key def stored log = (Inr (truthy b), lb)"
proof -
  have "\<not> isBoolean (prop_of def ''drop'')"
    using assms(4) function_not_other by blast
  then show ?thesis
    using assms by (simp add: export_skip_def protected_def Let_def act_simps unshadowed_free)
qed

lemma export_skip_otherwise:
  assumes "unshadowed S" "Schema_disabled S E key ctx log = (Inr d, la)" "\<not> truthy d"
      and "prop_of def ''drop'' \<noteq> Bool True" "\<not> isFunction (prop_of def ''drop'')"
  shows "export_skip S E data ctx key def stored log = (Inr False, la)"
proof -
  have "\<not> (isBoolean (prop_of def ''drop'') \<and> truthy (prop_of def ''drop''))"
    using assms(4) by (cases "prop_of def ''drop''") simp_all
  then show ?thesis
    using assms by (simp add: export_skip_def Let_def act_simps unshadowed_free)
qed

lemma export_emit_map:
  assumes "unshadowed S" "isFunction (prop_of def ''map'')"
  shows "export_emit S E data ctx key def stored =
           protected S E key ''map'' (callf E (prop_of def ''map'') ctx [stored, Str key, obj data])
             (prop_of def ''catch'') ctx stored Undefined"
  using assms by (simp add: export_emit_def protected_def Let_def unshadowed_free)

lemma export_emit_raw:
  assumes "\<not> isFunction (prop_of def ''map'')"
  shows "export_emit S E data ctx key def stored log = (Inr stored, log)"
  using assms by (simp add: export_emit_def Let_def act_simps)

text \<open>The loop over the fields, field by field: when the body returns at each field, the
  loop returns what the body left at the last one.\<close>

lemma each_field_chain:
  assumes "length accs = Suc (length fds)" and "length logs = Suc (length fds)"
      and "\<forall>i < length fds.
             f (fst (fds ! i)) (snd (fds ! i)) (accs ! i) (logs ! i) =
               (Inr (accs ! Suc i), logs ! Suc i)"
  shows "each_field f fds (accs ! 0) (logs ! 0) =
           (Inr (accs ! length fds), logs ! length fds)"
  using assms
proof (induction fds arbitrary: accs logs)
  case Nil
  then show ?case by (simp add: ret_apply)
next
  case (Cons p rest)
  obtain key def where p: "p = (key, def)" by (cases p)
  from Cons.prems(1) obtain a accs' where accs: "accs = a # accs'" "length accs' = Suc (length rest)"
    by (cases accs) auto
  from Cons.prems(2) obtain l logs' where logs: "logs = l # logs'" "length logs' = Suc (length rest)"
    by (cases logs) auto
  have first: "f key def a l = (Inr (accs' ! 0), logs' ! 0)"
    using Cons.prems(3) [rule_format, of 0] accs logs p by simp
  have "\<forall>j < length rest.
          f (fst (rest ! j)) (snd (rest ! j)) (accs' ! j) (logs' ! j) =
            (Inr (accs' ! Suc j), logs' ! Suc j)"
  proof (intro allI impI)
    fix j assume "j < length rest"
    then show "f (fst (rest ! j)) (snd (rest ! j)) (accs' ! j) (logs' ! j) =
            (Inr (accs' ! Suc j), logs' ! Suc j)"
      using Cons.prems(3) [rule_format, of "Suc j"] accs logs by simp
  qed
  from Cons.IH [OF accs(2) logs(2) this]
  have "each_field f rest (accs' ! 0) (logs' ! 0) = (Inr (accs' ! length rest), logs' ! length rest)" .
  with first show ?case
    by (simp add: p accs logs act_simps)
qed

lemma export_merges:
  assumes "length accs = Suc (length (defs S))" and "length logs = Suc (length (defs S))"
      and "accs ! 0 = ([], [])"
      and "\<forall>i < length (defs S).
             export_field S E data ctx (fst (defs S ! i)) (snd (defs S ! i)) (accs ! i) (logs ! i) =
               (Inr (accs ! Suc i), logs ! Suc i)"
  shows "Schema_export S E data ctx (logs ! 0) =
           (Inr (obj (assign (snd (accs ! length (defs S))) (fst (accs ! length (defs S))))),
            logs ! length (defs S))"
proof -
  have "each_field (export_field S E data ctx) (defs S) (accs ! 0) (logs ! 0) =
          (Inr (accs ! length (defs S)), logs ! length (defs S))"
    using assms(1,2,4) by (rule each_field_chain)
  then show ?thesis
    using assms(3) by (simp add: Schema_export_def act_simps)
qed

text \<open>
  C3, as the code has it, for a schema that has no field called after a method of the
  class. For every field, \<^verbatim>\<open>export\<close> first runs the \<^verbatim>\<open>flat\<close> function, if there is one, as a
  protected call, and merges the entries of its result into the patch; this is done
  whether or not the field is then skipped. The field is skipped when \<^verbatim>\<open>disabled\<close> resolves
  truthy, when \<^verbatim>\<open>drop\<close> is the boolean true, and when \<^verbatim>\<open>drop\<close> is a function whose protected
  call answers a truthy value; any other \<^verbatim>\<open>drop\<close> does not skip it. A field that is not
  skipped is emitted under its key with the protected result of \<^verbatim>\<open>map\<close> if \<^verbatim>\<open>map\<close> is a
  function, and with the stored value otherwise. This body runs on every field of the
  schema in turn, each on the patch, the output and the log that the one before it left.
  The result of \<^verbatim>\<open>export\<close> is the last output with the last patch assigned over it: a key
  of the patch has the value of the patch, any other key the value of the output (the key
  \<^verbatim>\<open>__proto__\<close> apart, which an assignment does not add).
\<close>

theorem export_field_by_field:
  assumes "unshadowed S"
  shows
  "(export_flat S E data ctx key def (data_at data key) patch log = (Inr merged, la)
      \<and> export_skip S E data ctx key def (data_at data key) la = (Inr skip, lb)
      \<and> (\<not> skip \<longrightarrow> export_emit S E data ctx key def (data_at data key) lb = (Inr res, lc)) \<longrightarrow>
      export_field S E data ctx key def (patch, emitted) log =
        (if skip then (Inr (merged, emitted), lb)
         else (Inr (merged, put key res emitted), lc)))
   \<and> (\<not> isFunction (prop_of def ''flat'') \<longrightarrow>
        export_flat S E data ctx key def stored patch log = (Inr patch, log))
   \<and> (isFunction (prop_of def ''flat'')
        \<and> protected S E key ''flat''
             (case callf E (prop_of def ''flat'') ctx [stored, Str key, obj data] of
                Inl e \<Rightarrow> Inl e
              | Inr r \<Rightarrow> Inr (if truthy r then r else obj []))
             (prop_of def ''catch'') ctx (obj []) Undefined log = (Inr flattened, la) \<longrightarrow>
        export_flat S E data ctx key def stored patch log =
          (Inr (assign patch (entries flattened)), la))
   \<and> (Schema_disabled S E key ctx log = (Inr d, la) \<and> truthy d \<longrightarrow>
        export_skip S E data ctx key def stored log = (Inr True, la))
   \<and> (Schema_disabled S E key ctx log = (Inr d, la) \<and> \<not> truthy d
        \<and> prop_of def ''drop'' = Bool True \<longrightarrow>
        export_skip S E data ctx key def stored log = (Inr True, la))
   \<and> (Schema_disabled S E key ctx log = (Inr d, la) \<and> \<not> truthy d
        \<and> isFunction (prop_of def ''drop'')
        \<and> protected S E key ''drop'' (callf E (prop_of def ''drop'') ctx [stored, Str key, obj data])
             (prop_of def ''catch'') ctx (Bool False) Undefined la = (Inr b, lb) \<longrightarrow>
        export_skip S E data ctx key def stored log = (Inr (truthy b), lb))
   \<and> (Schema_disabled S E key ctx log = (Inr d, la) \<and> \<not> truthy d
        \<and> prop_of def ''drop'' \<noteq> Bool True \<and> \<not> isFunction (prop_of def ''drop'') \<longrightarrow>
        export_skip S E data ctx key def stored log = (Inr False, la))
   \<and> (isFunction (prop_of def ''map'') \<longrightarrow>
        export_emit S E data ctx key def stored =
          protected S E key ''map'' (callf E (prop_of def ''map'') ctx [stored, Str key, obj data])
            (prop_of def ''catch'') ctx stored Undefined)
   \<and> (\<not> isFunction (prop_of def ''map'') \<longrightarrow>
        export_emit S E data ctx key def stored log = (Inr stored, log))
   \<and> (length accs = Suc (length (defs S)) \<and> length logs = Suc (length (defs S))
        \<and> accs ! 0 = ([], [])
        \<and> (\<forall>i < length (defs S).
              export_field S E data ctx (fst (defs S ! i)) (snd (defs S ! i)) (accs ! i) (logs ! i) =
                (Inr (accs ! Suc i), logs ! Suc i)) \<longrightarrow>
        Schema_export S E data ctx (logs ! 0) =
          (Inr (obj (assign (snd (accs ! length (defs S))) (fst (accs ! length (defs S))))),
           logs ! length (defs S)))
   \<and> (distinct (map fst patch) \<and> (k, x) \<in> set patch \<and> k \<noteq> ''__proto__'' \<longrightarrow>
        map_of (assign emitted patch) k = Some x)
   \<and> (k \<notin> fst ` set patch \<longrightarrow> map_of (assign emitted patch) k = map_of emitted k)"
proof (intro conjI impI)
  assume "export_flat S E data ctx key def (data_at data key) patch log = (Inr merged, la)
      \<and> export_skip S E data ctx key def (data_at data key) la = (Inr skip, lb)
      \<and> (\<not> skip \<longrightarrow> export_emit S E data ctx key def (data_at data key) lb = (Inr res, lc))"
  then show "export_field S E data ctx key def (patch, emitted) log =
        (if skip then (Inr (merged, emitted), lb)
         else (Inr (merged, put key res emitted), lc))"
    using export_field_steps by blast
next
  assume "\<not> isFunction (prop_of def ''flat'')"
  then show "export_flat S E data ctx key def stored patch log = (Inr patch, log)"
    by (rule export_flat_absent)
next
  assume "isFunction (prop_of def ''flat'')
        \<and> protected S E key ''flat''
             (case callf E (prop_of def ''flat'') ctx [stored, Str key, obj data] of
                Inl e \<Rightarrow> Inl e
              | Inr r \<Rightarrow> Inr (if truthy r then r else obj []))
             (prop_of def ''catch'') ctx (obj []) Undefined log = (Inr flattened, la)"
  then show "export_flat S E data ctx key def stored patch log =
          (Inr (assign patch (entries flattened)), la)"
    by (simp add: export_flat_merges [OF assms])
next
  assume "Schema_disabled S E key ctx log = (Inr d, la) \<and> truthy d"
  then show "export_skip S E data ctx key def stored log = (Inr True, la)"
    by (simp add: export_skip_disabled [OF assms])
next
  assume "Schema_disabled S E key ctx log = (Inr d, la) \<and> \<not> truthy d
        \<and> prop_of def ''drop'' = Bool True"
  then show "export_skip S E data ctx key def stored log = (Inr True, la)"
    using export_skip_drop_true [OF assms] by blast
next
  assume "Schema_disabled S E key ctx log = (Inr d, la) \<and> \<not> truthy d
        \<and> isFunction (prop_of def ''drop'')
        \<and> protected S E key ''drop'' (callf E (prop_of def ''drop'') ctx [stored, Str key, obj data])
             (prop_of def ''catch'') ctx (Bool False) Undefined la = (Inr b, lb)"
  then show "export_skip S E data ctx key def stored log = (Inr (truthy b), lb)"
    using export_skip_drop_function [OF assms] by blast
next
  assume "Schema_disabled S E key ctx log = (Inr d, la) \<and> \<not> truthy d
        \<and> prop_of def ''drop'' \<noteq> Bool True \<and> \<not> isFunction (prop_of def ''drop'')"
  then show "export_skip S E data ctx key def stored log = (Inr False, la)"
    using export_skip_otherwise [OF assms] by blast
next
  assume "isFunction (prop_of def ''map'')"
  then show "export_emit S E data ctx key def stored =
          protected S E key ''map'' (callf E (prop_of def ''map'') ctx [stored, Str key, obj data])
            (prop_of def ''catch'') ctx stored Undefined"
    by (rule export_emit_map [OF assms])
next
  assume "\<not> isFunction (prop_of def ''map'')"
  then show "export_emit S E data ctx key def stored log = (Inr stored, log)"
    by (rule export_emit_raw)
next
  assume "length accs = Suc (length (defs S)) \<and> length logs = Suc (length (defs S))
        \<and> accs ! 0 = ([], [])
        \<and> (\<forall>i < length (defs S).
              export_field S E data ctx (fst (defs S ! i)) (snd (defs S ! i)) (accs ! i) (logs ! i) =
                (Inr (accs ! Suc i), logs ! Suc i))"
  then show "Schema_export S E data ctx (logs ! 0) =
          (Inr (obj (assign (snd (accs ! length (defs S))) (fst (accs ! length (defs S))))),
           logs ! length (defs S))"
    using export_merges by blast
next
  assume "distinct (map fst patch) \<and> (k, x) \<in> set patch \<and> k \<noteq> ''__proto__''"
  then show "map_of (assign emitted patch) k = Some x"
    by (simp add: assign_patch_wins)
next
  assume "k \<notin> fst ` set patch"
  then show "map_of (assign emitted patch) k = map_of emitted k"
    by (rule assign_output_stays)
qed

lemma unshadowed_profile_schema: "unshadowed profile_schema"
  by (simp add: unshadowed_def Schema_prototype_def profile_schema_def Schema_new_def)

lemma defs_profile_schema:
  "defs profile_schema =
     [(''name'', obj [(''default'', Str [])]),
      (''password'', obj [(''default'', Str []), (''drop'', Bool True)]),
      (''profile'', obj [(''default'', obj []), (''flat'', Fun 0)])]"
  by (simp add: profile_schema_def Schema_new_def)

lemma profile_not_disabled:
  "key \<in> {''name'', ''password'', ''profile''} \<Longrightarrow>
   Schema_disabled profile_schema E key Null log = (Inr (Bool False), log)"
  by (auto simp add: Schema_disabled_def Schema_dollar_determine_def field_def defs_profile_schema
        ret_apply unshadowed_free [OF unshadowed_profile_schema])

lemma profile_name:
  "export_field profile_schema profile_env profile_data Null
     ''name'' (obj [(''default'', Str [])]) ([], []) log =
   (Inr ([], [(''name'', Str ''tom'')]), log)"
  by (simp add: export_field_def export_flat_def export_skip_def export_emit_def data_at_def
        profile_data_def put_def profile_not_disabled act_simps Let_def
        unshadowed_free [OF unshadowed_profile_schema])

lemma profile_password:
  "export_field profile_schema profile_env profile_data Null
     ''password'' (obj [(''default'', Str []), (''drop'', Bool True)])
     ([], [(''name'', Str ''tom'')]) log =
   (Inr ([], [(''name'', Str ''tom'')]), log)"
  by (simp add: export_field_def export_flat_def export_skip_def export_emit_def data_at_def
        profile_data_def put_def profile_not_disabled act_simps Let_def
        unshadowed_free [OF unshadowed_profile_schema])

lemma profile_profile:
  "export_field profile_schema profile_env profile_data Null
     ''profile'' (obj [(''default'', obj []), (''flat'', Fun 0)])
     ([], [(''name'', Str ''tom'')]) log =
   (Inr ([(''firstName'', Str ''A''), (''lastName'', Str ''B'')],
         [(''name'', Str ''tom''), (''profile'', obj [(''f'', Str ''A''), (''l'', Str ''B'')])]), log)"
  by (simp add: export_field_def export_flat_def export_skip_def export_emit_def data_at_def
        profile_data_def profile_env_def put_def profile_not_disabled Schema_trydo_def
        act_simps Let_def unshadowed_free [OF unshadowed_profile_schema])

theorem export_field_by_field_witness:
  "unshadowed profile_schema
   \<and> Schema_export profile_schema profile_env profile_data Null [] =
       (Inr (obj [(''name'', Str ''tom''), (''profile'', obj [(''f'', Str ''A''), (''l'', Str ''B'')]),
                  (''firstName'', Str ''A''), (''lastName'', Str ''B'')]), [])"
proof -
  let ?accs = "[([], []),
                ([], [(''name'', Str ''tom'')]),
                ([], [(''name'', Str ''tom'')]),
                ([(''firstName'', Str ''A''), (''lastName'', Str ''B'')],
                 [(''name'', Str ''tom''), (''profile'', obj [(''f'', Str ''A''), (''l'', Str ''B'')])])]"
  let ?logs = "[Nil, Nil, Nil, Nil] :: jsval list list"
  note loop = export_field_by_field [OF unshadowed_profile_schema,
      where E = profile_env and data = profile_data and ctx = Null and accs = ?accs and logs = ?logs,
      THEN conjunct2, THEN conjunct2, THEN conjunct2, THEN conjunct2, THEN conjunct2,
      THEN conjunct2, THEN conjunct2, THEN conjunct2, THEN conjunct2, THEN conjunct1]
  have steps: "length ?accs = Suc (length (defs profile_schema))
        \<and> length ?logs = Suc (length (defs profile_schema))
        \<and> ?accs ! 0 = ([], [])
        \<and> (\<forall>i < length (defs profile_schema).
              export_field profile_schema profile_env profile_data Null
                (fst (defs profile_schema ! i)) (snd (defs profile_schema ! i)) (?accs ! i) (?logs ! i) =
                (Inr (?accs ! Suc i), ?logs ! Suc i))"
    using profile_name [of "[]"] profile_password [of "[]"] profile_profile [of "[]"]
    by (simp add: defs_profile_schema All_less_Suc)
  from loop [THEN mp, OF steps]
  have "Schema_export profile_schema profile_env profile_data Null [] =
       (Inr (obj [(''name'', Str ''tom''), (''profile'', obj [(''f'', Str ''A''), (''l'', Str ''B'')]),
                  (''firstName'', Str ''A''), (''lastName'', Str ''B'')]), [])"
    by (simp add: defs_profile_schema put_def)
  with unshadowed_profile_schema show ?thesis by simp
qed

text \<open>
  As the claim states it, C3 fails: a \<^verbatim>\<open>drop\<close> that is truthy does not always skip the field.
  With \<^verbatim>\<open>drop: 1\<close> the field is emitted. And in a schema with a field called \<^verbatim>\<open>disabled\<close>,
  \<^verbatim>\<open>export\<close> is a TypeError at its first field.
\<close>

theorem truthy_drop_counterexample:
  "truthy (prop_of (field drop_schema ''a'') ''drop'')
   \<and> Schema_export drop_schema quiet [(''a'', Num 5)] Null [] =
       (Inr (obj [(''a'', Num 5)]), [])
   \<and> Schema_export masked_schema quiet [(''name'', Str ''tom'')] Null [] =
       (Inl (ErrV ''TypeError'' ''this.disabled is not a function''), [])"
  by (simp add: drop_schema_def masked_schema_def quiet_def Schema_new_def field_def Schema_export_def
        export_field_def export_flat_def export_skip_def export_emit_def Schema_disabled_def
        Schema_dollar_determine_def data_at_def put_def invoke_def act_simps Let_def)

section \<open>Catching and expecting\<close>

lemma catch_by_never_throws: "\<exists>r. Ty_catch_by A T v p = Inr r"
  by (simp add: Ty_catch_by_def Let_def)

lemma catch_by_null: "Ty_catch_by A T v p = Inr None \<longleftrightarrow> (\<exists>u. A (Ty_create p) v = Inr u)"
  by (simp add: Ty_catch_by_def Type_catch_def Let_def split: sum.splits)

lemma expect_returns_unsilenced:
  assumes "\<not> silent T"
  shows "(\<exists>b. Ty_expect_to_match A T v p = Inr b) \<longleftrightarrow> (\<exists>u. A (Ty_create p) v = Inr u)"
  using assms by (auto simp add: Ty_expect_to_match_def Ty_throw_def Let_def split: sum.splits)

lemma expect_throws_unsilenced:
  assumes "\<not> silent T" "A (Ty_create p) v = Inl e"
  shows "Ty_expect_to_match A T v p = Inl e"
  using assms by (simp add: Ty_expect_to_match_def Ty_throw_def Let_def)

lemma expect_silenced:
  assumes "silent T" "A (Ty_create p) v = Inl e"
  shows "Ty_expect_to_match A T v p = Inr False"
  using assms by (simp add: Ty_expect_to_match_def Ty_throw_def Let_def)

lemma ty_not_silent: "\<not> silent ty"
  by (simp add: ty_def Ty_new_def)

text \<open>
  C4. For every pattern and value, and whatever \<^verbatim>\<open>assert\<close> does: \<^verbatim>\<open>Ty.catch(V).by(P)\<close> is
  null exactly when \<^verbatim>\<open>Ty.expect(V).to.match(P)\<close> does not throw. When \<^verbatim>\<open>assert\<close> throws an
  error, \<^verbatim>\<open>Ty.expect(V).to.match(P)\<close> throws that error. The same holds for every instance
  that is not silenced, while a silenced instance returns false instead. \<^verbatim>\<open>catch(V).by(P)\<close>
  never throws, on any instance: it returns the error or null.
\<close>

theorem catch_null_iff_expect_passes:
  "(Ty_catch_by A ty v p = Inr None \<longleftrightarrow> (\<exists>b. Ty_expect_to_match A ty v p = Inr b))
   \<and> (A (Ty_create p) v = Inl e \<longrightarrow> Ty_expect_to_match A ty v p = Inl e)
   \<and> (\<not> silent T \<longrightarrow>
        (Ty_catch_by A T v p = Inr None \<longleftrightarrow> (\<exists>b. Ty_expect_to_match A T v p = Inr b)))
   \<and> (\<not> silent T \<and> A (Ty_create p) v = Inl e \<longrightarrow> Ty_expect_to_match A T v p = Inl e)
   \<and> (silent T \<and> A (Ty_create p) v = Inl e \<longrightarrow> Ty_expect_to_match A T v p = Inr False)
   \<and> (\<exists>r. Ty_catch_by A T v p = Inr r)
   \<and> (A (Ty_create p) v = Inl e \<longrightarrow> Ty_catch_by A T v p = Inr (Some e))"
proof (intro conjI impI)
  show "Ty_catch_by A ty v p = Inr None \<longleftrightarrow> (\<exists>b. Ty_expect_to_match A ty v p = Inr b)"
    by (simp add: catch_by_null expect_returns_unsilenced [OF ty_not_silent])
next
  assume "A (Ty_create p) v = Inl e"
  then show "Ty_expect_to_match A ty v p = Inl e"
    by (simp add: expect_throws_unsilenced [OF ty_not_silent])
next
  assume "\<not> silent T"
  then show "Ty_catch_by A T v p = Inr None \<longleftrightarrow> (\<exists>b. Ty_expect_to_match A T v p = Inr b)"
    by (simp add: catch_by_null expect_returns_unsilenced)
next
  assume "\<not> silent T \<and> A (Ty_create p) v = Inl e"
  then show "Ty_expect_to_match A T v p = Inl e"
    by (simp add: expect_throws_unsilenced)
next
  assume "silent T \<and> A (Ty_create p) v = Inl e"
  then show "Ty_expect_to_match A T v p = Inr False"
    by (simp add: expect_silenced)
next
  show "\<exists>r. Ty_catch_by A T v p = Inr r"
    by (rule catch_by_never_throws)
next
  assume "A (Ty_create p) v = Inl e"
  then show "Ty_catch_by A T v p = Inr (Some e)"
    by (simp add: Ty_catch_by_def Type_catch_def Let_def)
qed

theorem catch_null_iff_expect_passes_witness:
  "numbers_only (Ty_create (Ctor ''Number'')) (Str ''ten'') =
     Inl (TyError ''mistaken'' [here (Str ''ten'') (Ctor ''Number'') ''assert''])
   \<and> \<not> silent ty \<and> silent (Ty_silent ty (Bool True))
   \<and> Ty_expect_to_match numbers_only ty (Str ''ten'') (Ctor ''Number'') =
       Inl (TyError ''mistaken'' [here (Str ''ten'') (Ctor ''Number'') ''assert''])
   \<and> Ty_expect_to_match numbers_only (Ty_silent ty (Bool True)) (Str ''ten'') (Ctor ''Number'') =
       Inr False
   \<and> Ty_catch_by numbers_only ty (Str ''ten'') (Ctor ''Number'') =
       Inr (Some (TyError ''mistaken'' [here (Str ''ten'') (Ctor ''Number'') ''assert'']))
   \<and> Ty_catch_by numbers_only ty (Num 10) (Ctor ''Number'') = Inr None
   \<and> Ty_expect_to_match numbers_only ty (Num 10) (Ctor ''Number'') = Inr True"
proof -
  have mismatch: "numbers_only (Ty_create (Ctor ''Number'')) (Str ''ten'') =
     Inl (TyError ''mistaken'' [here (Str ''ten'') (Ctor ''Number'') ''assert''])"
    by (simp add: numbers_only_def here_def)
  have loud: "\<not> silent ty" and quiet: "silent (Ty_silent ty (Bool True))"
    by (simp_all add: ty_def Ty_new_def Ty_silent_def)
  note facts = catch_null_iff_expect_passes [where A = numbers_only and v = "Str ''ten''"
      and p = "Ctor ''Number''" and T = "Ty_silent ty (Bool True)"
      and e = "TyError ''mistaken'' [here (Str ''ten'') (Ctor ''Number'') ''assert'']"]
  have thrown: "Ty_expect_to_match numbers_only ty (Str ''ten'') (Ctor ''Number'') =
       Inl (TyError ''mistaken'' [here (Str ''ten'') (Ctor ''Number'') ''assert''])"
    using facts mismatch by simp
  have silenced: "Ty_expect_to_match numbers_only (Ty_silent ty (Bool True)) (Str ''ten'') (Ctor ''Number'') =
       Inr False"
    using facts mismatch quiet by simp
  have caught: "Ty_catch_by numbers_only ty (Str ''ten'') (Ctor ''Number'') =
       Inr (Some (TyError ''mistaken'' [here (Str ''ten'') (Ctor ''Number'') ''assert'']))"
    using catch_null_iff_expect_passes [where A = numbers_only and v = "Str ''ten''"
      and p = "Ctor ''Number''" and T = ty
      and e = "TyError ''mistaken'' [here (Str ''ten'') (Ctor ''Number'') ''assert'']"] mismatch
    by simp
  have passes: "Ty_expect_to_match numbers_only ty (Num 10) (Ctor ''Number'') = Inr True"
    by (simp add: Ty_expect_to_match_def numbers_only_def Let_def)
  have null: "Ty_catch_by numbers_only ty (Num 10) (Ctor ''Number'') = Inr None"
    using catch_null_iff_expect_passes [where A = numbers_only and v = "Num 10"
      and p = "Ctor ''Number''"] passes
    by auto
  from mismatch loud quiet thrown silenced caught null passes show ?thesis by simp
qed
section \<open>Tuples\<close>

lemma tuple_pair:
  assumes "V (Num 1) (Ctor ''Number'') = None" "V (Str ''a'') (Ctor ''String'') = None"
  shows "Tuple_assert V R mode number_string (arr [Num 1, Str ''a'']) = Inr ()"
  using assms by (simp add: Tuple_assert_def number_string_def Let_def upt_rec)

lemma tuple_strict_triple:
  "Tuple_assert V R ''strict'' number_string (arr [Num 1, Str ''a'', Str ''x'']) =
     Inl (TyError ''dirty''
       [(here (arr [Num 1, Str ''a'', Str ''x'']) (arr number_string) ''assert'')
          \<lparr> at_length := Some 2 \<rparr>])"
  by (simp add: Tuple_assert_def number_string_def Let_def)

lemma tuple_loose_triple:
  assumes "mode \<noteq> ''strict''"
      and "V (Num 1) (Ctor ''Number'') = None" "V (Str ''a'') (Ctor ''String'') = None"
  shows "Tuple_assert V R mode number_string (arr [Num 1, Str ''a'', Str ''x'']) =
           (case V (Str ''x'') Undefined of
              None \<Rightarrow> Inr ()
            | Some error \<Rightarrow>
                Inl (makeError error
                  ((here (arr [Num 1, Str ''a'', Str ''x'']) (arr number_string) ''assert'')
                     \<lparr> at_index := Some 2, at_value := Str ''x'', at_pattern := Undefined \<rparr>)))"
  using assms
  by (simp add: Tuple_assert_def number_string_def Let_def upt_rec numeral_2_eq_2 split: option.splits)

lemma validate_number: "Type_validate other (Num 1) (Ctor ''Number'') = None"
  by (simp add: Type_validate_def Prototype_find_def prototypes_def)

lemma validate_string: "Type_validate other (Str ''a'') (Ctor ''String'') = None"
  by (simp add: Type_validate_def Prototype_find_def prototypes_def)

lemma validate_missing: "Type_validate other value Undefined = None"
  by (simp add: Type_validate_def Prototype_find_def prototypes_def)

text \<open>
  C9, for \<^verbatim>\<open>Tuple([Number, String])\<close>. \<^verbatim>\<open>assert([1, 'a'])\<close> returns, in every mode. In strict
  mode \<^verbatim>\<open>assert([1, 'a', 'x'])\<close> throws a \<^verbatim>\<open>dirty\<close> error that carries the pattern count 2,
  whatever \<^verbatim>\<open>validate\<close> does. In any other mode \<^verbatim>\<open>assert([1, 'a', 'x'])\<close> returns. In that
  mode \<^verbatim>\<open>Tuple.assert\<close> does not compare the counts and runs over the three items, the third
  of which it hands to \<^verbatim>\<open>validate\<close> with \<^verbatim>\<open>patterns[2]\<close>, which is undefined: for any
  \<^verbatim>\<open>validate\<close> that accepts 1 as a Number and 'a' as a String, the assertion returns exactly
  when \<^verbatim>\<open>validate\<close> accepts 'x' with no pattern, and throws the error of that check with the
  index 2 otherwise.
\<close>

theorem tuple_number_string_assert:
  "Tuple_assert (Type_validate other) R mode number_string (arr [Num 1, Str ''a'']) = Inr ()
   \<and> Tuple_assert V R ''strict'' number_string (arr [Num 1, Str ''a'', Str ''x'']) =
       Inl (TyError ''dirty''
         [(here (arr [Num 1, Str ''a'', Str ''x'']) (arr number_string) ''assert'')
            \<lparr> at_length := Some 2 \<rparr>])
   \<and> (mode \<noteq> ''strict'' \<longrightarrow>
        Tuple_assert (Type_validate other) R mode number_string (arr [Num 1, Str ''a'', Str ''x''])
          = Inr ())
   \<and> (mode \<noteq> ''strict'' \<and> V (Num 1) (Ctor ''Number'') = None
        \<and> V (Str ''a'') (Ctor ''String'') = None \<longrightarrow>
        Tuple_assert V R mode number_string (arr [Num 1, Str ''a'', Str ''x'']) =
          (case V (Str ''x'') Undefined of
             None \<Rightarrow> Inr ()
           | Some error \<Rightarrow>
               Inl (makeError error
                 ((here (arr [Num 1, Str ''a'', Str ''x'']) (arr number_string) ''assert'')
                    \<lparr> at_index := Some 2, at_value := Str ''x'', at_pattern := Undefined \<rparr>))))"
proof (intro conjI impI)
  show "Tuple_assert (Type_validate other) R mode number_string (arr [Num 1, Str ''a'']) = Inr ()"
    by (rule tuple_pair [OF validate_number validate_string])
next
  show "Tuple_assert V R ''strict'' number_string (arr [Num 1, Str ''a'', Str ''x'']) =
       Inl (TyError ''dirty''
         [(here (arr [Num 1, Str ''a'', Str ''x'']) (arr number_string) ''assert'')
            \<lparr> at_length := Some 2 \<rparr>])"
    by (rule tuple_strict_triple)
next
  assume "mode \<noteq> ''strict''"
  then show "Tuple_assert (Type_validate other) R mode number_string
               (arr [Num 1, Str ''a'', Str ''x'']) = Inr ()"
    by (simp add: tuple_loose_triple [OF _ validate_number validate_string] validate_missing)
next
  assume "mode \<noteq> ''strict'' \<and> V (Num 1) (Ctor ''Number'') = None
        \<and> V (Str ''a'') (Ctor ''String'') = None"
  then show "Tuple_assert V R mode number_string (arr [Num 1, Str ''a'', Str ''x'']) =
          (case V (Str ''x'') Undefined of
             None \<Rightarrow> Inr ()
           | Some error \<Rightarrow>
               Inl (makeError error
                 ((here (arr [Num 1, Str ''a'', Str ''x'']) (arr number_string) ''assert'')
                    \<lparr> at_index := Some 2, at_value := Str ''x'', at_pattern := Undefined \<rparr>)))"
    by (simp add: tuple_loose_triple)
qed

theorem tuple_number_string_assert_witness:
  "''loose'' \<noteq> ''strict''
   \<and> Type_validate unknown_pattern (Num 1) (Ctor ''Number'') = None
   \<and> Type_validate unknown_pattern (Str ''a'') (Ctor ''String'') = None
   \<and> Type_validate unknown_pattern (Str ''x'') Undefined = None
   \<and> Tuple_assert (Type_validate unknown_pattern) no_rule ''loose'' number_string
       (arr [Num 1, Str ''a'']) = Inr ()
   \<and> Tuple_assert (Type_validate unknown_pattern) no_rule ''loose'' number_string
       (arr [Num 1, Str ''a'', Str ''x'']) = Inr ()
   \<and> kind (projl (Tuple_assert (Type_validate unknown_pattern) no_rule ''strict'' number_string
                    (arr [Num 1, Str ''a'', Str ''x'']))) = ''dirty''"
proof -
  note loose = tuple_number_string_assert [where V = "Type_validate unknown_pattern"
      and other = unknown_pattern and R = no_rule and mode = "''loose''"]
  have mode: "''loose'' \<noteq> ''strict''"
    by simp
  have tokens: "Type_validate unknown_pattern (Num 1) (Ctor ''Number'') = None"
      "Type_validate unknown_pattern (Str ''a'') (Ctor ''String'') = None"
      "Type_validate unknown_pattern (Str ''x'') Undefined = None"
    by (simp_all add: Type_validate_def Prototype_find_def prototypes_def)
  have a: "Tuple_assert (Type_validate unknown_pattern) no_rule ''loose'' number_string
             (arr [Num 1, Str ''a'']) = Inr ()"
    using loose by simp
  have b: "Tuple_assert (Type_validate unknown_pattern) no_rule ''loose'' number_string
             (arr [Num 1, Str ''a'', Str ''x'']) = Inr ()"
    using loose [THEN conjunct2, THEN conjunct2, THEN conjunct2, THEN mp] mode tokens
    by simp
  have c: "kind (projl (Tuple_assert (Type_validate unknown_pattern) no_rule ''strict'' number_string
                    (arr [Num 1, Str ''a'', Str ''x'']))) = ''dirty''"
    using loose by simp
  from mode tokens a b c show ?thesis by simp
qed

section \<open>Defaults\<close>

lemma clone_fresh:
  "deep_clone n v = (c, n') \<Longrightarrow>
     n \<le> n' \<and> addresses c \<subseteq> {n..<n'} \<and> content c = content v"
  "clone_items n xs = (ys, n') \<Longrightarrow>
     n \<le> n' \<and> addresses_items ys \<subseteq> {n..<n'} \<and> content_items ys = content_items xs"
  "clone_fields n fs = (gs, n') \<Longrightarrow>
     n \<le> n' \<and> addresses_fields gs \<subseteq> {n..<n'} \<and> content_fields gs = content_fields fs"
proof (induction n v and n xs and n fs arbitrary: c n' and ys n' and gs n'
       rule: deep_clone_clone_items_clone_fields.induct)
  case (1 n a xs)
  obtain ys m where items: "clone_items (Suc n) xs = (ys, m)"
    by (cases "clone_items (Suc n) xs")
  with "1.prems" have c: "c = Arr n ys" "n' = m" by simp_all
  from "1.IH" [OF items] have "Suc n \<le> m" "addresses_items ys \<subseteq> {Suc n..<m}"
      "content_items ys = content_items xs"
    by simp_all
  with c show ?case by auto
next
  case (2 n a fs)
  obtain gs m where fields: "clone_fields (Suc n) fs = (gs, m)"
    by (cases "clone_fields (Suc n) fs")
  with "2.prems" have c: "c = Obj n gs" "n' = m" by simp_all
  from "2.IH" [OF fields] have "Suc n \<le> m" "addresses_fields gs \<subseteq> {Suc n..<m}"
      "content_fields gs = content_fields fs"
    by simp_all
  with c show ?case by auto
next
  case (16 n x xs)
  obtain y n1 where x: "deep_clone n x = (y, n1)"
    by (cases "deep_clone n x")
  obtain zs n2 where xs: "clone_items n1 xs = (zs, n2)"
    by (cases "clone_items n1 xs")
  from "16.prems" x xs have r: "ys = y # zs" "n' = n2" by simp_all
  from "16.IH"(1) [OF x] have h1: "n \<le> n1" "addresses y \<subseteq> {n..<n1}" "content y = content x"
    by simp_all
  from "16.IH"(2) [OF x [symmetric] xs]
  have h2: "n1 \<le> n2" "addresses_items zs \<subseteq> {n1..<n2}" "content_items zs = content_items xs"
    by simp_all
  from r h1 h2 show ?case by auto
next
  case (18 n f fs)
  obtain y n1 where x: "deep_clone n (snd f) = (y, n1)"
    by (cases "deep_clone n (snd f)")
  obtain hs n2 where fs: "clone_fields n1 fs = (hs, n2)"
    by (cases "clone_fields n1 fs")
  from "18.prems" x fs have r: "gs = (fst f, y) # hs" "n' = n2" by simp_all
  from "18.IH"(1) [OF x] have h1: "n \<le> n1" "addresses y \<subseteq> {n..<n1}" "content y = content (snd f)"
    by simp_all
  from "18.IH"(2) [OF x [symmetric] fs]
  have h2: "n1 \<le> n2" "addresses_fields hs \<subseteq> {n1..<n2}" "content_fields hs = content_fields fs"
    by simp_all
  from r h1 h2 show ?case by auto
qed auto


lemma clone_root:
  assumes "isObject v \<or> isArray v"
  shows "n \<in> addresses (fst (deep_clone n v))"
  using assms by (cases v) (simp_all split: prod.splits)

lemma clone_addresses: "addresses (fst (deep_clone n v)) \<subseteq> {n..<snd (deep_clone n v)}"
  using clone_fresh(1) [of n v "fst (deep_clone n v)" "snd (deep_clone n v)"] by simp

lemma clone_content: "content (fst (deep_clone n v)) = content v"
  using clone_fresh(1) [of n v "fst (deep_clone n v)" "snd (deep_clone n v)"] by simp

lemma clones_apart:
  "addresses (fst (deep_clone n v)) \<inter> addresses (fst (deep_clone (snd (deep_clone n v)) w)) = {}"
proof -
  have "addresses (fst (deep_clone n v)) \<subseteq> {n..<snd (deep_clone n v)}"
    by (rule clone_addresses)
  moreover have "addresses (fst (deep_clone (snd (deep_clone n v)) w))
                   \<subseteq> {snd (deep_clone n v)..<snd (deep_clone (snd (deep_clone n v)) w)}"
    by (rule clone_addresses)
  ultimately show ?thesis by fastforce
qed

lemma clone_apart_from_original:
  assumes "\<forall>a \<in> addresses v. a < n"
  shows "addresses (fst (deep_clone n v)) \<inter> addresses v = {}"
  using assms clone_addresses [of n v] by fastforce

lemma default_function:
  assumes "\<not> isUndefined (field S key)" "isFunction (prop_of (field S key) ''default'')"
  shows "Schema_dollar_default clone S E key s =
           (callf E (prop_of (field S key) ''default'') Undefined [], s)"
  using assms by (simp add: Schema_dollar_default_def Let_def)

lemma default_cloned:
  assumes "\<not> isUndefined (field S key)"
      and "isObject (prop_of (field S key) ''default'') \<or> isArray (prop_of (field S key) ''default'')"
  shows "Schema_dollar_default clone S E key s =
           (Inr (fst (clone s (prop_of (field S key) ''default''))),
            snd (clone s (prop_of (field S key) ''default'')))"
proof -
  have "\<not> isFunction (prop_of (field S key) ''default'')"
    using assms(2) by (cases "prop_of (field S key) ''default''") simp_all
  then show ?thesis
    using assms by (simp add: Schema_dollar_default_def Let_def split: prod.splits)
qed

lemma default_itself:
  assumes "\<not> isUndefined (field S key)" "\<not> isFunction (prop_of (field S key) ''default'')"
      and "\<not> isObject (prop_of (field S key) ''default'')" "\<not> isArray (prop_of (field S key) ''default'')"
  shows "Schema_dollar_default clone S E key s = (Inr (prop_of (field S key) ''default''), s)"
  using assms by (simp add: Schema_dollar_default_def Let_def)

text \<open>
  C8. For a key with a definition, with \<open>dv\<close> its \<^verbatim>\<open>default\<close> meta. When \<open>dv\<close> is a function,
  \<^verbatim>\<open>$default\<close> gives the outcome of calling it with no receiver and no argument. When \<open>dv\<close>
  is an object or an array, \<^verbatim>\<open>$default\<close> returns a deep clone: a value with the content of
  \<open>dv\<close>, whose root is at a new address and all of whose arrays and objects are at addresses
  taken by this call; a second call returns a clone whose addresses are all different
  from those of the first, and when the addresses of \<open>dv\<close> are in use, no clone shares an
  address with \<open>dv\<close>. For any other \<open>dv\<close>, \<^verbatim>\<open>$default\<close> returns \<open>dv\<close> itself.
\<close>

theorem default_by_kind:
  assumes "\<not> isUndefined (field S key)" and "dv = prop_of (field S key) ''default''"
  shows "(isFunction dv \<longrightarrow>
            Schema_dollar_default deep_clone S E key n = (callf E dv Undefined [], n))
       \<and> (isObject dv \<or> isArray dv \<longrightarrow>
            (\<exists>copy m again k.
               Schema_dollar_default deep_clone S E key n = (Inr copy, m)
               \<and> content copy = content dv
               \<and> n \<in> addresses copy \<and> addresses copy \<subseteq> {n..<m}
               \<and> Schema_dollar_default deep_clone S E key m = (Inr again, k)
               \<and> content again = content dv
               \<and> m \<in> addresses again
               \<and> addresses copy \<inter> addresses again = {}
               \<and> ((\<forall>a \<in> addresses dv. a < n) \<longrightarrow>
                    addresses copy \<inter> addresses dv = {} \<and> addresses again \<inter> addresses dv = {})))
       \<and> (\<not> isFunction dv \<and> \<not> isObject dv \<and> \<not> isArray dv \<longrightarrow>
            Schema_dollar_default deep_clone S E key n = (Inr dv, n))"
proof (intro conjI impI)
  assume "isFunction dv"
  with assms show "Schema_dollar_default deep_clone S E key n = (callf E dv Undefined [], n)"
    by (simp add: default_function)
next
  assume kind: "isObject dv \<or> isArray dv"
  let ?copy = "fst (deep_clone n dv)" and ?m = "snd (deep_clone n dv)"
  let ?again = "fst (deep_clone ?m dv)" and ?k = "snd (deep_clone ?m dv)"
  have first: "Schema_dollar_default deep_clone S E key n = (Inr ?copy, ?m)"
    using assms kind by (simp add: default_cloned)
  have second: "Schema_dollar_default deep_clone S E key ?m = (Inr ?again, ?k)"
    using assms kind by (simp add: default_cloned)
  have le: "n \<le> ?m"
    using clone_fresh(1) [of n dv ?copy ?m] by simp
  have original: "(\<forall>a \<in> addresses dv. a < n) \<longrightarrow>
          addresses ?copy \<inter> addresses dv = {} \<and> addresses ?again \<inter> addresses dv = {}"
  proof
    assume used: "\<forall>a \<in> addresses dv. a < n"
    then have "\<forall>a \<in> addresses dv. a < ?m"
      using le by fastforce
    with used show "addresses ?copy \<inter> addresses dv = {} \<and> addresses ?again \<inter> addresses dv = {}"
      by (simp add: clone_apart_from_original)
  qed
  show "\<exists>copy m again k.
               Schema_dollar_default deep_clone S E key n = (Inr copy, m)
               \<and> content copy = content dv
               \<and> n \<in> addresses copy \<and> addresses copy \<subseteq> {n..<m}
               \<and> Schema_dollar_default deep_clone S E key m = (Inr again, k)
               \<and> content again = content dv
               \<and> m \<in> addresses again
               \<and> addresses copy \<inter> addresses again = {}
               \<and> ((\<forall>a \<in> addresses dv. a < n) \<longrightarrow>
                    addresses copy \<inter> addresses dv = {} \<and> addresses again \<inter> addresses dv = {})"
    using first second original clone_content clone_root [OF kind] clone_addresses clones_apart
    by blast
next
  assume "\<not> isFunction dv \<and> \<not> isObject dv \<and> \<not> isArray dv"
  with assms show "Schema_dollar_default deep_clone S E key n = (Inr dv, n)"
    by (simp add: default_itself)
qed

lemma field_defaults_schema:
  "field defaults_schema ''tags'' = Obj 2 [(''default'', Arr 0 [Str ''a'', Obj 1 [(''n'', Num 1)]])]"
  "field defaults_schema ''created'' = Obj 3 [(''default'', Fun 0)]"
  "field defaults_schema ''name'' = Obj 4 [(''default'', Str ''x'')]"
  by (simp_all add: defaults_schema_def field_def)

theorem default_by_kind_witness:
  "\<not> isUndefined (field defaults_schema ''tags'')
   \<and> isArray (prop_of (field defaults_schema ''tags'') ''default'')
   \<and> addresses (prop_of (field defaults_schema ''tags'') ''default'') = {0, 1}
   \<and> Schema_dollar_default deep_clone defaults_schema defaults_env ''tags'' 5 =
       (Inr (Arr 5 [Str ''a'', Obj 6 [(''n'', Num 1)]]), 7)
   \<and> Schema_dollar_default deep_clone defaults_schema defaults_env ''tags'' 7 =
       (Inr (Arr 7 [Str ''a'', Obj 8 [(''n'', Num 1)]]), 9)
   \<and> addresses (Arr 5 [Str ''a'', Obj 6 [(''n'', Num 1)]])
         \<inter> addresses (Arr 7 [Str ''a'', Obj 8 [(''n'', Num 1)]]) = {}
   \<and> addresses (Arr 5 [Str ''a'', Obj 6 [(''n'', Num 1)]])
         \<inter> addresses (prop_of (field defaults_schema ''tags'') ''default'') = {}
   \<and> isFunction (prop_of (field defaults_schema ''created'') ''default'')
   \<and> Schema_dollar_default deep_clone defaults_schema defaults_env ''created'' 5 = (Inr (Num 7), 5)
   \<and> Schema_dollar_default deep_clone defaults_schema defaults_env ''name'' 5 = (Inr (Str ''x''), 5)"
proof -
  have tags: "\<not> isUndefined (field defaults_schema ''tags'')"
      "isArray (prop_of (field defaults_schema ''tags'') ''default'')"
      "addresses (prop_of (field defaults_schema ''tags'') ''default'') = {0, 1}"
    by (auto simp add: field_defaults_schema)
  have created: "\<not> isUndefined (field defaults_schema ''created'')"
      "isFunction (prop_of (field defaults_schema ''created'') ''default'')"
    by (simp_all add: field_defaults_schema)
  have name: "\<not> isUndefined (field defaults_schema ''name'')"
    by (simp add: field_defaults_schema)
  have a: "Schema_dollar_default deep_clone defaults_schema defaults_env ''created'' 5 = (Inr (Num 7), 5)"
    using default_by_kind [OF created(1) refl, of defaults_env 5] created(2)
    by (simp add: field_defaults_schema defaults_env_def)
  have b: "Schema_dollar_default deep_clone defaults_schema defaults_env ''name'' 5 = (Inr (Str ''x''), 5)"
    using default_by_kind [OF name refl, of defaults_env 5]
    by (simp add: field_defaults_schema)
  have c: "Schema_dollar_default deep_clone defaults_schema defaults_env ''tags'' 5 =
       (Inr (Arr 5 [Str ''a'', Obj 6 [(''n'', Num 1)]]), 7)"
    by (simp add: Schema_dollar_default_def field_defaults_schema Let_def)
  have d: "Schema_dollar_default deep_clone defaults_schema defaults_env ''tags'' 7 =
       (Inr (Arr 7 [Str ''a'', Obj 8 [(''n'', Num 1)]]), 9)"
    by (simp add: Schema_dollar_default_def field_defaults_schema Let_def)
  have used: "\<forall>a \<in> addresses (prop_of (field defaults_schema ''tags'') ''default''). a < 5"
    using tags(3) by simp
  from default_by_kind [OF tags(1) refl, of defaults_env 5] tags(2) used c d
  have e: "addresses (Arr 5 [Str ''a'', Obj 6 [(''n'', Num 1)]])
             \<inter> addresses (Arr 7 [Str ''a'', Obj 8 [(''n'', Num 1)]]) = {}
           \<and> addresses (Arr 5 [Str ''a'', Obj 6 [(''n'', Num 1)]])
             \<inter> addresses (prop_of (field defaults_schema ''tags'') ''default'') = {}"
    by auto
  from tags created a b c d e show ?thesis by simp
qed
section \<open>Every call of a meta function\<close>




















end
